theory Spec2Isabelle
  imports Complex_Main "HOL-Library.AList"
begin

section \<open>Python values\<close>

text \<open>
  The tools of \<^verbatim>\<open>src/tools/embedding.py\<close> and \<^verbatim>\<open>src/tools/document.py\<close> pass
  around the values that \<^verbatim>\<open>response.json()\<close> and the index client produce: \<^verbatim>\<open>None\<close>,
  booleans, numbers, strings, lists and dicts with string keys. A dict is an association
  list in insertion order; \<open>map_of\<close> is the lookup, \<open>AList.update\<close> is
  \<^verbatim>\<open>d[k] = v\<close> (an existing key keeps its place, a new key goes to the end) and
  \<open>AList.delete\<close> removes a key. Floats are never computed with, only carried around.
  A string is a list of characters, one \<open>char\<close> for each character of the Python string.
\<close>

datatype json =
    JNull
  | JBool bool
  | JInt int
  | JFloat real
  | JStr string
  | JList "json list"
  | JDict "(string \<times> json) list"

type_synonym dict = "(string \<times> json) list"

text \<open>
  An exception is its class and the text \<^verbatim>\<open>str(e)\<close>. The handlers of the source only
  tell \<^verbatim>\<open>requests.exceptions.RequestException\<close> from the other subclasses of
  \<^verbatim>\<open>Exception\<close>. The texts of the interpreter's own exceptions are those of
  CPython 3.11; no statement below depends on them.
\<close>

datatype exn_class =
  RequestException | AttributeError | IndexError | KeyError | TypeError | OtherException

datatype exn = Exn exn_class string

fun exn_class_of :: "exn \<Rightarrow> exn_class" where
  "exn_class_of (Exn c m) = c"

fun str_exn :: "exn \<Rightarrow> string" where
  "str_exn (Exn c m) = m"

definition and_then :: "exn + 'a \<Rightarrow> ('a \<Rightarrow> exn + 'b) \<Rightarrow> exn + 'b" where
  "and_then m f = (case m of Inl e \<Rightarrow> Inl e | Inr x \<Rightarrow> f x)"

definition quoted :: "string \<Rightarrow> string" where
  "quoted s = CHR 0x27 # s @ [CHR 0x27]"

fun type_name :: "json \<Rightarrow> string" where
  "type_name JNull = ''NoneType''"
| "type_name (JBool b) = ''bool''"
| "type_name (JInt i) = ''int''"
| "type_name (JFloat r) = ''float''"
| "type_name (JStr s) = ''str''"
| "type_name (JList xs) = ''list''"
| "type_name (JDict d) = ''dict''"

definition no_attribute :: "json \<Rightarrow> string \<Rightarrow> exn" where
  "no_attribute v a =
     Exn AttributeError (quoted (type_name v) @ '' object has no attribute '' @ quoted a)"

definition not_subscriptable :: "json \<Rightarrow> exn" where
  "not_subscriptable v = Exn TypeError (quoted (type_name v) @ '' object is not subscriptable'')"

text \<open>\<^verbatim>\<open>obj.get(key, default)\<close>: only a dict has the method.\<close>

fun py_get :: "json \<Rightarrow> string \<Rightarrow> json \<Rightarrow> exn + json" where
  "py_get (JDict d) k dflt = Inr (case map_of d k of Some v \<Rightarrow> v | None \<Rightarrow> dflt)"
| "py_get v k dflt = Inl (no_attribute v ''get'')"

text \<open>\<^verbatim>\<open>obj[0]\<close>. No dict made of JSON has the key \<^verbatim>\<open>0\<close>: its keys are strings.\<close>

fun py_item0 :: "json \<Rightarrow> exn + json" where
  "py_item0 (JList xs) =
     (case xs of [] \<Rightarrow> Inl (Exn IndexError ''list index out of range'') | x # _ \<Rightarrow> Inr x)"
| "py_item0 (JStr s) =
     (case s of [] \<Rightarrow> Inl (Exn IndexError ''string index out of range'') | c # _ \<Rightarrow> Inr (JStr [c]))"
| "py_item0 (JDict d) = Inl (Exn KeyError ''0'')"
| "py_item0 v = Inl (not_subscriptable v)"

text \<open>
  \<^verbatim>\<open>obj[key]\<close> with a string key. The text of the \<^verbatim>\<open>KeyError\<close> is \<^verbatim>\<open>repr(key)\<close>, written
  here for keys without quotes or escapes, as all keys of the source are.
\<close>

fun py_getitem :: "json \<Rightarrow> string \<Rightarrow> exn + json" where
  "py_getitem (JDict d) k =
     (case map_of d k of Some v \<Rightarrow> Inr v | None \<Rightarrow> Inl (Exn KeyError (quoted k)))"
| "py_getitem (JList xs) k = Inl (Exn TypeError ''list indices must be integers or slices, not str'')"
| "py_getitem (JStr s) k = Inl (Exn TypeError (''string indices must be integers, not '' @ quoted ''str''))"
| "py_getitem v k = Inl (not_subscriptable v)"

text \<open>\<^verbatim>\<open>len(obj)\<close>.\<close>

fun py_len :: "json \<Rightarrow> exn + nat" where
  "py_len (JList xs) = Inr (length xs)"
| "py_len (JStr s) = Inr (length s)"
| "py_len (JDict d) = Inr (length d)"
| "py_len v = Inl (Exn TypeError (''object of type '' @ quoted (type_name v) @ '' has no len()''))"

text \<open>\<^verbatim>\<open>for x in obj\<close>: a dict yields its keys, a string its characters.\<close>

fun py_iter :: "json \<Rightarrow> exn + json list" where
  "py_iter (JList xs) = Inr xs"
| "py_iter (JDict d) = Inr (map (\<lambda>kv. JStr (fst kv)) d)"
| "py_iter (JStr s) = Inr (map (\<lambda>c. JStr [c]) s)"
| "py_iter v = Inl (Exn TypeError (quoted (type_name v) @ '' object is not iterable''))"

text \<open>\<^verbatim>\<open>key in d\<close> for a dict \<open>d\<close>.\<close>

definition has_key :: "dict \<Rightarrow> string \<Rightarrow> bool" where
  "has_key d k = (map_of d k \<noteq> None)"

text \<open>Truth value of an optional string: \<^verbatim>\<open>None\<close> and \<^verbatim>\<open>""\<close> are false.\<close>

fun truthy :: "string option \<Rightarrow> bool" where
  "truthy None = False"
| "truthy (Some s) = (s \<noteq> [])"

text \<open>Decimal text of a natural number, as an f-string renders a non-negative \<^verbatim>\<open>int\<close>.\<close>

definition digit_char :: "nat \<Rightarrow> char" where
  "digit_char d = ''0123456789'' ! (d mod 10)"

function str_nat :: "nat \<Rightarrow> string" where
  "str_nat n = (if n < 10 then [digit_char n] else str_nat (n div 10) @ [digit_char n])"
  by pat_completeness auto
termination
  by (relation "measure id") auto

declare str_nat.simps [simp del]

section \<open>The remote services\<close>

text \<open>
  Every call that leaves the process is an event of the trace. The services are
  parameters: each answers from the calls made so far and the arguments of this call,
  with a value or with an exception.
  \<^item> \<open>requests_post\<close> is lines 43 to 46 of \<^verbatim>\<open>embedding.py\<close> together:
    \<^verbatim>\<open>requests.post\<close>, \<^verbatim>\<open>raise_for_status\<close> and \<^verbatim>\<open>response.json()\<close>.
  \<^item> \<open>search_documents\<close>, \<open>write_document\<close>, \<open>index_document\<close>, \<open>get_client\<close> and the
    \<^verbatim>\<open>bulk\<close> of the client it returns are the index client, \<^verbatim>\<open>common/aos_client.py\<close>,
    whose code is not part of the sources at hand.
  \<^item> \<open>json_dumps\<close> is \<^verbatim>\<open>json.dumps\<close>, which does not fail on these values.
\<close>

datatype event =
    HttpPost string json "(string \<times> string) list"
  | SearchDocuments string int
  | WriteDocument string json
  | IndexDocument json
  | Bulk json bool

type_synonym trace = "event list"

record env =
  api_token :: "string option"
  index_name :: string
  json_dumps :: "json \<Rightarrow> string"
  requests_post :: "trace \<Rightarrow> string \<Rightarrow> json \<Rightarrow> (string \<times> string) list \<Rightarrow> exn + json"
  search_documents :: "trace \<Rightarrow> string \<Rightarrow> int \<Rightarrow> exn + json"
  write_document :: "trace \<Rightarrow> string \<Rightarrow> json \<Rightarrow> exn + json"
  index_document :: "trace \<Rightarrow> json \<Rightarrow> exn + json"
  get_client :: "trace \<Rightarrow> exn option"
  client_bulk :: "trace \<Rightarrow> json \<Rightarrow> bool \<Rightarrow> exn + json"

text \<open>The attributes that \<^verbatim>\<open>EmbeddingTools.__init__\<close> fixes.\<close>

definition embedding_api_url :: string where
  "embedding_api_url = ''https://api.siliconflow.cn/v1/embeddings''"

definition default_model :: string where
  "default_model = ''Pro/BAAI/bge-m3''"

definition vector_field :: string where
  "vector_field = ''dense_vector''"

definition vector_dimension :: nat where
  "vector_dimension = 1024"

definition error_result :: "string \<Rightarrow> json" where
  "error_result msg = JDict [(''status'', JStr ''error''), (''message'', JStr msg)]"

section \<open>generate_embedding\<close>

definition embedding_payload :: "json \<Rightarrow> string \<Rightarrow> json" where
  "embedding_payload text model_name =
     JDict [(''model'', JStr model_name), (''input'', text), (''encoding_format'', JStr ''float'')]"

definition embedding_headers :: "string \<Rightarrow> (string \<times> string) list" where
  "embedding_headers tok =
     [(''Authorization'', ''Bearer '' @ tok), (''Content-Type'', ''application/json'')]"

text \<open>\<^verbatim>\<open>result.get("data", [{}])[0].get("embedding", [])\<close>\<close>

definition first_embedding :: "json \<Rightarrow> exn + json" where
  "first_embedding result =
     and_then (py_get result ''data'' (JList [JDict []])) (\<lambda>data.
     and_then (py_item0 data) (\<lambda>entry.
     py_get entry ''embedding'' (JList [])))"

text \<open>The two handlers of \<^verbatim>\<open>generate_embedding\<close>, in the order of the source.\<close>

definition embedding_except :: "exn \<Rightarrow> json" where
  "embedding_except e =
     (if exn_class_of e = RequestException
      then error_result (''API request failed: '' @ str_exn e)
      else error_result (''Unexpected error: '' @ str_exn e))"

text \<open>\<^verbatim>\<open>x if x else d\<close> for an optional string \<open>x\<close>.\<close>

fun str_or :: "string option \<Rightarrow> string \<Rightarrow> string" where
  "str_or None d = d"
| "str_or (Some s) d = (if s = [] then d else s)"

definition generate_embedding :: "env \<Rightarrow> trace \<Rightarrow> json \<Rightarrow> string option \<Rightarrow> json \<times> trace" where
  "generate_embedding env tr text model =
     (if \<not> truthy (api_token env)
      then (error_result ''API token not configured for embedding service'', tr)
      else
        let model_name = str_or model default_model;
            payload = embedding_payload text model_name;
            headers = embedding_headers (str_or (api_token env) []);
            tr' = tr @ [HttpPost embedding_api_url payload headers]
        in case and_then (requests_post env tr embedding_api_url payload headers) first_embedding of
             Inl e \<Rightarrow> (embedding_except e, tr')
           | Inr emb \<Rightarrow>
               (JDict [(''status'', JStr ''success''), (''embedding'', emb),
                       (''model'', JStr model_name)], tr'))"

section \<open>knn_search\<close>

definition knn_query :: "json \<Rightarrow> int \<Rightarrow> json" where
  "knn_query vector k =
     JDict [(''size'', JInt k),
            (''query'', JDict [(''knn'', JDict [(vector_field,
               JDict [(''vector'', vector), (''k'', JInt k)])])]),
            (''_source'', JDict [(''excludes'', JList [JStr vector_field])])]"

text \<open>\<^verbatim>\<open>obj.items()\<close>\<close>

fun py_items :: "json \<Rightarrow> exn + dict" where
  "py_items (JDict d) = Inr d"
| "py_items v = Inl (no_attribute v ''items'')"

text \<open>
  The body of the loop over the hits. The comprehension keeps the items of \<open>source\<close>
  in their order; the keys of a dict are distinct, so it is a filter.
\<close>

definition simplify_hit :: "json \<Rightarrow> exn + json" where
  "simplify_hit hit =
     and_then (py_get hit ''_source'' (JDict [])) (\<lambda>source.
     and_then (py_get hit ''_id'' JNull) (\<lambda>hit_id.
     and_then (py_get hit ''_score'' JNull) (\<lambda>score.
     and_then (py_get source ''text'' (JStr [])) (\<lambda>txt.
     and_then (py_items source) (\<lambda>items.
     Inr (JDict [(''id'', hit_id), (''score'', score), (''text'', txt),
                 (''metadata'',
                  JDict (filter (\<lambda>kv. fst kv \<noteq> ''text'' \<and> fst kv \<noteq> vector_field) items))]))))))"

fun simplify_hits :: "json list \<Rightarrow> exn + json list" where
  "simplify_hits [] = Inr []"
| "simplify_hits (hit # hits) =
     and_then (simplify_hit hit) (\<lambda>item.
     and_then (simplify_hits hits) (\<lambda>items. Inr (item # items)))"

text \<open>
  \<^verbatim>\<open>result["results"].get("hits", {}).get("hits", [])\<close>, as the loop of line 101
  walks through it.
\<close>

definition raw_hits :: "json \<Rightarrow> exn + json list" where
  "raw_hits result =
     and_then (py_getitem result ''results'') (\<lambda>res.
     and_then (py_get res ''hits'' (JDict [])) (\<lambda>outer.
     and_then (py_get outer ''hits'' (JList [])) py_iter))"

text \<open>
  Lines 97 to 116: what \<^verbatim>\<open>knn_search\<close> makes of the answer of the index client.
  \<^verbatim>\<open>"results" in result\<close> is evaluated only after \<^verbatim>\<open>result["status"]\<close> has returned,
  that is on a dict.
\<close>

fun knn_process :: "json \<Rightarrow> exn + json" where
  "knn_process (JDict d) =
     and_then (py_getitem (JDict d) ''status'') (\<lambda>st.
       if st = JStr ''success'' \<and> has_key d ''results'' then
         and_then (raw_hits (JDict d)) (\<lambda>hits.
         and_then (simplify_hits hits) (\<lambda>simplified_results.
         Inr (JDict [(''status'', JStr ''success''),
                     (''results'', JList simplified_results),
                     (''total'', JInt (int (length simplified_results)))])))
       else Inr (JDict d))"
| "knn_process v = and_then (py_getitem v ''status'') (\<lambda>st. Inr v)"

definition knn_except :: "exn \<Rightarrow> json" where
  "knn_except e = error_result (''kNN search error: '' @ str_exn e)"

definition knn_search :: "env \<Rightarrow> trace \<Rightarrow> json \<Rightarrow> int \<Rightarrow> json \<times> trace" where
  "knn_search env tr vector k =
     (case py_len vector of
        Inl e \<Rightarrow> (knn_except e, tr)
      | Inr n \<Rightarrow>
          if n \<noteq> vector_dimension then
            (error_result (''Vector dimension mismatch. Expected '' @ str_nat vector_dimension
                           @ '', got '' @ str_nat n), tr)
          else
            let query = json_dumps env (knn_query vector k);
                tr' = tr @ [SearchDocuments query k]
            in case and_then (search_documents env tr query k) knn_process of
                 Inl e \<Rightarrow> (knn_except e, tr')
               | Inr r \<Rightarrow> (r, tr'))"

section \<open>bulk_index_with_embeddings\<close>

definition failure :: "dict \<Rightarrow> json \<Rightarrow> json" where
  "failure doc reason = JDict [(''doc'', JDict doc), (''reason'', reason)]"

text \<open>
  The first loop, lines 136 to 151, with \<^verbatim>\<open>processed_docs\<close> and \<^verbatim>\<open>failed_docs\<close> as
  accumulators. \<^verbatim>\<open>doc.copy()\<close> is a new dict with the same items.
\<close>

fun embed_documents ::
  "env \<Rightarrow> string \<Rightarrow> dict list \<Rightarrow> dict list \<Rightarrow> json list \<Rightarrow> trace
     \<Rightarrow> (exn + dict list \<times> json list) \<times> trace" where
  "embed_documents env text_field [] processed_docs failed_docs tr =
     (Inr (processed_docs, failed_docs), tr)"
| "embed_documents env text_field (doc # docs) processed_docs failed_docs tr =
     (case map_of doc text_field of
        None \<Rightarrow>
          embed_documents env text_field docs processed_docs
            (failed_docs @ [failure doc (JStr (''Missing text field '' @ quoted text_field))]) tr
      | Some txt \<Rightarrow>
          (case generate_embedding env tr txt None of
             (embedding_result, tr') \<Rightarrow>
               (case py_getitem embedding_result ''status'' of
                  Inl e \<Rightarrow> (Inl e, tr')
                | Inr st \<Rightarrow>
                    if st \<noteq> JStr ''success'' then
                      (case py_getitem embedding_result ''message'' of
                         Inl e \<Rightarrow> (Inl e, tr')
                       | Inr msg \<Rightarrow>
                           embed_documents env text_field docs processed_docs
                             (failed_docs @ [failure doc msg]) tr')
                    else
                      (case py_getitem embedding_result ''embedding'' of
                         Inl e \<Rightarrow> (Inl e, tr')
                       | Inr emb \<Rightarrow>
                           embed_documents env text_field docs
                             (processed_docs @ [AList.update vector_field emb doc])
                             failed_docs tr'))))"

text \<open>The second loop, lines 165 to 173: an action line and the document, for each document.\<close>

fun bulk_actions :: "string \<Rightarrow> dict list \<Rightarrow> json list" where
  "bulk_actions idx [] = []"
| "bulk_actions idx (doc # docs) =
     (case map_of doc ''_id'' of
        Some doc_id \<Rightarrow>
          [JDict [(''index'', JDict [(''_index'', JStr idx), (''_id'', doc_id)])],
           JDict (AList.delete ''_id'' doc)]
      | None \<Rightarrow>
          [JDict [(''index'', JDict [(''_index'', JStr idx)])], JDict doc])
     @ bulk_actions idx docs"

definition bulk_except :: "exn \<Rightarrow> json" where
  "bulk_except e = error_result (''Bulk indexing error: '' @ str_exn e)"

definition bulk_index_with_embeddings ::
  "env \<Rightarrow> trace \<Rightarrow> dict list \<Rightarrow> string \<Rightarrow> json \<times> trace" where
  "bulk_index_with_embeddings env tr documents text_field =
     (case embed_documents env text_field documents [] [] tr of
        (Inl e, tr1) \<Rightarrow> (bulk_except e, tr1)
      | (Inr (processed_docs, failed_docs), tr1) \<Rightarrow>
          if processed_docs = [] then
            (JDict [(''status'', JStr ''error''),
                    (''message'', JStr ''No documents were processed successfully''),
                    (''failed_docs'', JList failed_docs)], tr1)
          else
            (case get_client env tr1 of
               Some e \<Rightarrow> (bulk_except e, tr1)
             | None \<Rightarrow>
                 let bulk_data = JList (bulk_actions (index_name env) processed_docs);
                     tr2 = tr1 @ [Bulk bulk_data True]
                 in case client_bulk env tr1 bulk_data True of
                      Inl e \<Rightarrow> (bulk_except e, tr2)
                    | Inr response \<Rightarrow>
                        (JDict [(''status'', JStr ''success''),
                                (''response'', response),
                                (''processed_count'', JInt (int (length processed_docs))),
                                (''failed_count'', JInt (int (length failed_docs))),
                                (''failed_docs'',
                                 if failed_docs \<noteq> [] then JList failed_docs else JNull)], tr2)))"

section \<open>index_text_with_embedding\<close>

text \<open>
  \<^verbatim>\<open>document = metadata or {}\<close> makes \<open>document\<close> another name of the caller's dict when
  that dict is not empty, and the two assignments that follow write through it. The
  dicts therefore live in a store: an address names a dict object, \<open>cells\<close> gives its
  items now, and \<open>next_free\<close> is the address of the next object made. The index client
  is handed the document and answers; it does not write to it.
\<close>

record store =
  cells :: "nat \<Rightarrow> dict"
  next_free :: nat

definition new_dict :: "store \<Rightarrow> nat \<times> store" where
  "new_dict s =
     (next_free s, s\<lparr>cells := (cells s)(next_free s := []), next_free := Suc (next_free s)\<rparr>)"

definition setitem :: "nat \<Rightarrow> string \<Rightarrow> json \<Rightarrow> store \<Rightarrow> store" where
  "setitem a k v s = s\<lparr>cells := (cells s)(a := AList.update k v (cells s a))\<rparr>"

text \<open>\<^verbatim>\<open>metadata or {}\<close>: the caller's dict if there is one and it is not empty.\<close>

fun metadata_or_new :: "nat option \<Rightarrow> store \<Rightarrow> nat \<times> store" where
  "metadata_or_new None s = new_dict s"
| "metadata_or_new (Some a) s = (if cells s a \<noteq> [] then (a, s) else new_dict s)"

definition index_text_with_embedding ::
  "env \<Rightarrow> trace \<Rightarrow> store \<Rightarrow> string \<Rightarrow> string option \<Rightarrow> nat option
     \<Rightarrow> (exn + json) \<times> trace \<times> store" where
  "index_text_with_embedding env tr s text document_id metadata =
     (case generate_embedding env tr (JStr text) None of
        (embedding_result, tr1) \<Rightarrow>
          (case py_getitem embedding_result ''status'' of
             Inl e \<Rightarrow> (Inl e, tr1, s)
           | Inr st \<Rightarrow>
               if st \<noteq> JStr ''success'' then (Inr embedding_result, tr1, s)
               else
                 (case metadata_or_new metadata s of
                    (document, s1) \<Rightarrow>
                      let s2 = setitem document ''text'' (JStr text) s1
                      in case py_getitem embedding_result ''embedding'' of
                           Inl e \<Rightarrow> (Inl e, tr1, s2)
                         | Inr emb \<Rightarrow>
                             let s3 = setitem document vector_field emb s2;
                                 doc = JDict (cells s3 document)
                             in if truthy document_id then
                                  (write_document env tr1 (str_or document_id []) doc,
                                   tr1 @ [WriteDocument (str_or document_id []) doc], s3)
                                else
                                  (index_document env tr1 doc,
                                   tr1 @ [IndexDocument doc], s3))))"

section \<open>text_similarity_search\<close>

definition text_similarity_search ::
  "env \<Rightarrow> trace \<Rightarrow> string \<Rightarrow> int \<Rightarrow> (exn + json) \<times> trace" where
  "text_similarity_search env tr text k =
     (case generate_embedding env tr (JStr text) None of
        (embedding_result, tr1) \<Rightarrow>
          (case py_getitem embedding_result ''status'' of
             Inl e \<Rightarrow> (Inl e, tr1)
           | Inr st \<Rightarrow>
               if st \<noteq> JStr ''success'' then (Inr embedding_result, tr1)
               else
                 (case py_getitem embedding_result ''embedding'' of
                    Inl e \<Rightarrow> (Inl e, tr1)
                  | Inr emb \<Rightarrow>
                      (case knn_search env tr1 emb k of
                         (search_result, tr2) \<Rightarrow>
                           (case py_getitem search_result ''status'' of
                              Inl e \<Rightarrow> (Inl e, tr2)
                            | Inr st2 \<Rightarrow>
                                if st2 = JStr ''success'' then
                                  (and_then (py_getitem search_result ''results'') (\<lambda>results.
                                   and_then (py_get search_result ''total'' (JInt 0)) (\<lambda>total.
                                   Inr (JDict [(''status'', JStr ''success''),
                                               (''query_text'', JStr text),
                                               (''results'', results),
                                               (''total'', total)]))), tr2)
                                else (Inr search_result, tr2))))))"

section \<open>get_document\<close>

definition term_query :: "string \<Rightarrow> json" where
  "term_query document_id =
     JDict [(''query'', JDict [(''term'', JDict [(''_id'', JStr document_id)])])]"

definition not_found :: "string \<Rightarrow> json" where
  "not_found document_id = error_result (''Document with ID '' @ document_id @ '' not found'')"

text \<open>\<^verbatim>\<open>result["results"]["hits"]["hits"]\<close>\<close>

definition result_hits :: "json \<Rightarrow> exn + json" where
  "result_hits result =
     and_then (py_getitem result ''results'') (\<lambda>res.
     and_then (py_getitem res ''hits'') (\<lambda>outer.
     py_getitem outer ''hits''))"

text \<open>Lines 44 to 53; \<^verbatim>\<open>and\<close> evaluates its right operand only when the left one holds.\<close>

definition get_document_result :: "string \<Rightarrow> json \<Rightarrow> exn + json" where
  "get_document_result document_id result =
     and_then (py_getitem result ''status'') (\<lambda>st.
       if st \<noteq> JStr ''success'' then Inr (not_found document_id)
       else
         and_then (result_hits result) (\<lambda>hits.
         and_then (py_len hits) (\<lambda>n.
           if n > 0 then
             and_then (result_hits result) (\<lambda>hits'.
             and_then (py_item0 hits') (\<lambda>hit.
             Inr (JDict [(''status'', JStr ''success''), (''document'', hit)])))
           else Inr (not_found document_id))))"

definition get_document :: "env \<Rightarrow> trace \<Rightarrow> string \<Rightarrow> (exn + json) \<times> trace" where
  "get_document env tr document_id =
     (let query = json_dumps env (term_query document_id);
          tr' = tr @ [SearchDocuments query 1]
      in (and_then (search_documents env tr query 1) (get_document_result document_id), tr'))"

section \<open>The contract of the index client\<close>

text \<open>
  A result as the tools return it: a dict whose \<open>status\<close> is \<open>success\<close>, or whose
  \<open>status\<close> is \<open>error\<close> and that has a \<open>message\<close>.
\<close>

fun structured_result :: "json \<Rightarrow> bool" where
  "structured_result (JDict d) =
     (map_of d ''status'' = Some (JStr ''success'') \<or>
      (map_of d ''status'' = Some (JStr ''error'') \<and> has_key d ''message''))"
| "structured_result v = False"

text \<open>A search result: structured, and with the raw \<open>results\<close> when it is a success.\<close>

fun search_result_ok :: "json \<Rightarrow> bool" where
  "search_result_ok (JDict d) =
     (structured_result (JDict d) \<and>
      (map_of d ''status'' = Some (JStr ''success'') \<longrightarrow> has_key d ''results''))"
| "search_result_ok v = False"

text \<open>
  Modelled from the spec: the index client, \<^verbatim>\<open>common/aos_client.py\<close>, is not among the
  sources. Section 4.2 of the specification gives its contract: \<^verbatim>\<open>search\<close> returns the raw
  hits or a search error, a write returns an acknowledgement or a write error, and
  every operation surfaces a structured status (\<open>success\<close>, or \<open>error\<close> with a message)
  rather than throwing.
\<close>

definition client_contract :: "env \<Rightarrow> bool" where
  "client_contract env =
     ((\<forall>tr q k. \<exists>r. search_documents env tr q k = Inr r \<and> search_result_ok r) \<and>
      (\<forall>tr i d. \<exists>r. write_document env tr i d = Inr r \<and> structured_result r) \<and>
      (\<forall>tr d. \<exists>r. index_document env tr d = Inr r \<and> structured_result r))"

section \<open>Example services\<close>

text \<open>Concrete services and values, on which the statements below are run.\<close>

definition example_vector :: json where
  "example_vector = JList (replicate 1024 (JFloat 0))"

definition embedding_response :: "json \<Rightarrow> json" where
  "embedding_response v = JDict [(''data'', JList [JDict [(''embedding'', v)]])]"

definition example_hit :: json where
  "example_hit =
     JDict [(''_id'', JStr ''doc-1''), (''_score'', JFloat 1),
            (''_source'', JDict [(''text'', JStr ''hello''), (''lang'', JStr ''en''),
                                 (''dense_vector'', JList [JFloat 0])])]"

definition search_response :: "json list \<Rightarrow> json" where
  "search_response hits =
     JDict [(''status'', JStr ''success''),
            (''results'', JDict [(''hits'', JDict [(''hits'', JList hits)])])]"

definition example_env :: env where
  "example_env =
     \<lparr>api_token = Some ''secret'',
      index_name = ''docs'',
      json_dumps = (\<lambda>q. ''query''),
      requests_post = (\<lambda>tr url payload headers. Inr (embedding_response example_vector)),
      search_documents = (\<lambda>tr q k. Inr (search_response [example_hit])),
      write_document = (\<lambda>tr i d. Inr (JDict [(''status'', JStr ''success'')])),
      index_document = (\<lambda>tr d. Inr (JDict [(''status'', JStr ''success'')])),
      get_client = (\<lambda>tr. None),
      client_bulk = (\<lambda>tr body refresh. Inr (JDict [(''errors'', JBool False)]))\<rparr>"

definition example_store :: store where
  "example_store = \<lparr>cells = (\<lambda>a. if a = 0 then [(''lang'', JStr ''en'')] else []), next_free = 1\<rparr>"

text \<open>An embedding service that answers without a \<open>data\<close> entry.\<close>

definition missing_data_env :: env where
  "missing_data_env =
     example_env\<lparr>requests_post := (\<lambda>tr url payload headers. Inr (JDict [(''object'', JStr ''list'')]))\<rparr>"


text \<open>No token for the embedding service.\<close>

definition no_token_env :: env where
  "no_token_env = example_env\<lparr>api_token := None\<rparr>"

text \<open>An index whose bulk call fails.\<close>

definition bulk_raises_env :: env where
  "bulk_raises_env =
     example_env\<lparr>client_bulk :=
       (\<lambda>tr body refresh. Inl (Exn OtherException ''ConnectionError''))\<rparr>"


text \<open>An index client whose search fails.\<close>

definition failed_search_env :: env where
  "failed_search_env =
     example_env\<lparr>search_documents := (\<lambda>tr q k. Inr (error_result ''connection refused''))\<rparr>"

text \<open>An index client whose write raises.\<close>

definition write_raises_env :: env where
  "write_raises_env =
     example_env\<lparr>write_document := (\<lambda>tr i d. Inl (Exn OtherException ''write failed''))\<rparr>"

section \<open>Auxiliary facts\<close>

lemma str_nat_dimension: "str_nat vector_dimension = ''1024''"
  unfolding vector_dimension_def by code_simp

lemma str_nat_3: "str_nat 3 = ''3''"
  by code_simp


lemma and_then_Inr: "and_then m f = Inr y \<longleftrightarrow> (\<exists>x. m = Inr x \<and> f x = Inr y)"
  by (cases m) (auto simp: and_then_def)

lemma lookup_Inr:
  "((case m of None \<Rightarrow> Inl e | Some x \<Rightarrow> Inr x) = Inr y) = (m = Some y)"
  by (cases m) auto



lemma py_getitem_Inr: "py_getitem v k = Inr x \<longleftrightarrow> (\<exists>d. v = JDict d \<and> map_of d k = Some x)"
  by (cases v) (auto split: option.splits)

lemma py_get_class: "py_get v k d = Inl e \<Longrightarrow> exn_class_of e = AttributeError"
  by (cases v) (auto simp: no_attribute_def)

lemma py_item0_class: "py_item0 v = Inl e \<Longrightarrow> exn_class_of e \<noteq> RequestException"
  by (cases v) (auto simp: not_subscriptable_def split: list.splits)

lemma first_embedding_class:
  "first_embedding result = Inl e \<Longrightarrow> exn_class_of e \<noteq> RequestException"
  by (auto simp: first_embedding_def and_then_def split: sum.splits
      dest: py_get_class py_item0_class)


text \<open>\<^verbatim>\<open>generate_embedding\<close> returns one of two shapes, and makes at most one call.\<close>

lemma generate_embedding_cases:
  "(\<exists>msg. fst (generate_embedding env tr text model) = error_result msg) \<or>
   (\<exists>emb name. fst (generate_embedding env tr text model) =
      JDict [(''status'', JStr ''success''), (''embedding'', emb), (''model'', JStr name)])"
  by (auto simp: generate_embedding_def Let_def embedding_except_def split: sum.splits)

lemma generate_embedding_trace:
  "snd (generate_embedding env tr text model) = tr \<or>
   (\<exists>payload headers.
      snd (generate_embedding env tr text model) = tr @ [HttpPost embedding_api_url payload headers])"
  by (auto simp: generate_embedding_def Let_def split: sum.splits)




lemma knn_search_Inr:
  assumes "knn_search env tr vector k = (r, tr')"
  shows "(\<exists>msg. r = error_result msg) \<or>
         (py_len vector = Inr vector_dimension \<and>
          tr' = tr @ [SearchDocuments (json_dumps env (knn_query vector k)) k] \<and>
          (\<exists>result. search_documents env tr (json_dumps env (knn_query vector k)) k = Inr result \<and>
                    knn_process result = Inr r))"
  using assms unfolding knn_search_def
  by (auto simp: Let_def knn_except_def and_then_Inr split: sum.splits if_splits)

section \<open>The embedding service\<close>

text \<open>
  Claim C7. For every text and model, \<^verbatim>\<open>generate_embedding\<close> called while no API token
  is configured (the token is \<^verbatim>\<open>None\<close> or empty) returns the error result whose message
  says that the API token is not configured, and the trace of remote calls is the one it
  was given: no network call is made.
\<close>

theorem generate_embedding_without_token:
  "\<not> truthy (api_token env) \<Longrightarrow>
     generate_embedding env tr text model =
       (JDict [(''status'', JStr ''error''),
               (''message'', JStr ''API token not configured for embedding service'')], tr)"
  by (simp add: generate_embedding_def error_result_def)

theorem generate_embedding_without_token_witness:
  "\<not> truthy (api_token (example_env\<lparr>api_token := None\<rparr>)) \<and>
   generate_embedding (example_env\<lparr>api_token := None\<rparr>) [] (JStr ''hello'') (Some ''m'') =
       (JDict [(''status'', JStr ''error''),
               (''message'', JStr ''API token not configured for embedding service'')], [])"
  using generate_embedding_without_token
          [of "example_env\<lparr>api_token := None\<rparr>" "[]" "JStr ''hello''" "Some ''m''"]
  by simp

text \<open>
  Claim C3, as the code has it. With a token configured and a response body \<open>result\<close>
  of the embedding service:
  \<^item> if \<open>result\<close> is an object without a \<open>data\<close> entry, \<^verbatim>\<open>generate_embedding\<close> returns a
    success whose embedding is the empty list;
  \<^item> if the first entry of \<open>data\<close> is an object, it returns a success whose embedding is the
    \<open>embedding\<close> of that entry, or the empty list if the entry has none;
  \<^item> for every other body (not an object, \<open>data\<close> empty or not a list, a first entry that
    is not an object) it returns an error result whose message starts with
    \<open>Unexpected error:\<close>.
\<close>

theorem generate_embedding_response:
  assumes tok: "truthy (api_token env)"
    and post: "requests_post env tr embedding_api_url
                 (embedding_payload text (str_or model default_model))
                 (embedding_headers (str_or (api_token env) [])) = Inr result"
  shows "(\<forall>d. result = JDict d \<and> map_of d ''data'' = None \<longrightarrow>
            fst (generate_embedding env tr text model) =
              JDict [(''status'', JStr ''success''), (''embedding'', JList []),
                     (''model'', JStr (str_or model default_model))]) \<and>
         (\<forall>d entry rest.
            result = JDict d \<and> map_of d ''data'' = Some (JList (JDict entry # rest)) \<longrightarrow>
            fst (generate_embedding env tr text model) =
              JDict [(''status'', JStr ''success''),
                     (''embedding'',
                      case map_of entry ''embedding'' of Some v \<Rightarrow> v | None \<Rightarrow> JList []),
                     (''model'', JStr (str_or model default_model))]) \<and>
         ((\<nexists>d. result = JDict d \<and> map_of d ''data'' = None) \<and>
          (\<nexists>d entry rest.
             result = JDict d \<and> map_of d ''data'' = Some (JList (JDict entry # rest))) \<longrightarrow>
            (\<exists>msg. fst (generate_embedding env tr text model) =
               JDict [(''status'', JStr ''error''),
                      (''message'', JStr (''Unexpected error: '' @ msg))]))"
proof (intro conjI allI impI)
  fix d assume "result = JDict d \<and> map_of d ''data'' = None"
  then show "fst (generate_embedding env tr text model) =
              JDict [(''status'', JStr ''success''), (''embedding'', JList []),
                     (''model'', JStr (str_or model default_model))]"
    using tok post by (simp add: generate_embedding_def Let_def and_then_def first_embedding_def)
next
  fix d entry rest
  assume "result = JDict d \<and> map_of d ''data'' = Some (JList (JDict entry # rest))"
  then show "fst (generate_embedding env tr text model) =
              JDict [(''status'', JStr ''success''),
                     (''embedding'',
                      case map_of entry ''embedding'' of Some v \<Rightarrow> v | None \<Rightarrow> JList []),
                     (''model'', JStr (str_or model default_model))]"
    using tok post by (simp add: generate_embedding_def Let_def and_then_def first_embedding_def)
next
  assume other: "(\<nexists>d. result = JDict d \<and> map_of d ''data'' = None) \<and>
          (\<nexists>d entry rest.
             result = JDict d \<and> map_of d ''data'' = Some (JList (JDict entry # rest)))"
  have "\<exists>e. first_embedding result = Inl e"
  proof (cases result)
    case (JDict d)
    with other obtain data where data: "map_of d ''data'' = Some data" by auto
    with other JDict have no_entry: "\<And>entry rest. data \<noteq> JList (JDict entry # rest)" by auto
    show ?thesis
    proof (cases data)
      case (JList xs)
      show ?thesis
      proof (cases xs)
        case Nil
        with JList JDict data show ?thesis by (simp add: first_embedding_def and_then_def)
      next
        case (Cons x xs')
        with no_entry JList have "\<And>entry. x \<noteq> JDict entry" by auto
        then have "\<exists>e. py_get x ''embedding'' (JList []) = Inl e" by (cases x) auto
        with Cons JList JDict data show ?thesis
          by (auto simp add: first_embedding_def and_then_def)
      qed
    next
      case (JStr s)
      with JDict data show ?thesis
        by (cases s) (auto simp add: first_embedding_def and_then_def)
    qed (use JDict data in \<open>auto simp add: first_embedding_def and_then_def\<close>)
  qed (auto simp add: first_embedding_def and_then_def)
  then obtain e where e: "first_embedding result = Inl e" by blast
  then have "exn_class_of e \<noteq> RequestException" by (rule first_embedding_class)
  with e tok post show "\<exists>msg. fst (generate_embedding env tr text model) =
               JDict [(''status'', JStr ''error''),
                      (''message'', JStr (''Unexpected error: '' @ msg))]"
    by (auto simp add: generate_embedding_def Let_def and_then_def embedding_except_def
        error_result_def)
qed

theorem generate_embedding_response_witness:
  "truthy (api_token example_env) \<and>
   requests_post example_env [] embedding_api_url
     (embedding_payload (JStr ''hello'') (str_or None default_model))
     (embedding_headers (str_or (api_token example_env) [])) =
       Inr (JDict [(''data'', JList [JDict [(''embedding'', example_vector)]])]) \<and>
   fst (generate_embedding example_env [] (JStr ''hello'') None) =
     JDict [(''status'', JStr ''success''), (''embedding'', example_vector),
            (''model'', JStr ''Pro/BAAI/bge-m3'')]"
proof -
  have tok: "truthy (api_token example_env)"
    by (simp add: example_env_def)
  have post: "requests_post example_env [] embedding_api_url
     (embedding_payload (JStr ''hello'') (str_or None default_model))
     (embedding_headers (str_or (api_token example_env) [])) =
       Inr (JDict [(''data'', JList [JDict [(''embedding'', example_vector)]])])"
    by (simp add: example_env_def embedding_response_def)
  show ?thesis
    using tok post generate_embedding_response [OF tok post]
    by (simp add: default_model_def)
qed

text \<open>
  Claim C3 as it is written fails: a response body without a \<open>data\<close> entry is turned into
  a success with an empty embedding, not into an error.
\<close>

theorem generate_embedding_missing_data_counterexample:
  "requests_post missing_data_env [] embedding_api_url
     (embedding_payload (JStr ''hello'') default_model) (embedding_headers ''secret'') =
       Inr (JDict [(''object'', JStr ''list'')]) \<and>
   generate_embedding missing_data_env [] (JStr ''hello'') None =
     (JDict [(''status'', JStr ''success''), (''embedding'', JList []),
             (''model'', JStr ''Pro/BAAI/bge-m3'')],
      [HttpPost embedding_api_url (embedding_payload (JStr ''hello'') default_model)
         (embedding_headers ''secret'')])"
  by (simp add: missing_data_env_def example_env_def generate_embedding_def first_embedding_def
      and_then_def default_model_def Let_def)

section \<open>Nearest-neighbour search\<close>

text \<open>
  Claim C4. For every vector whose length \<open>n\<close> differs from the configured dimension and
  every \<open>k\<close>, \<^verbatim>\<open>knn_search\<close> returns an error result whose message states the expected
  dimension, 1024, and the actual one, \<open>n\<close>, and the trace of remote calls is the one it
  was given: the index client is not called.
\<close>

theorem knn_search_dimension_mismatch:
  "py_len vector = Inr n \<Longrightarrow> n \<noteq> vector_dimension \<Longrightarrow>
     knn_search env tr vector k =
       (JDict [(''status'', JStr ''error''),
               (''message'',
                JStr (''Vector dimension mismatch. Expected 1024, got '' @ str_nat n))], tr)"
  by (simp add: knn_search_def error_result_def str_nat_dimension)

theorem knn_search_dimension_mismatch_witness:
  "py_len (JList [JFloat 0, JFloat 1, JFloat 0]) = Inr 3 \<and> 3 \<noteq> vector_dimension \<and>
   knn_search example_env [] (JList [JFloat 0, JFloat 1, JFloat 0]) 5 =
     (JDict [(''status'', JStr ''error''),
             (''message'', JStr ''Vector dimension mismatch. Expected 1024, got 3'')], [])"
proof -
  have len: "py_len (JList [JFloat 0, JFloat 1, JFloat 0]) = Inr 3"
    by simp
  have neq: "3 \<noteq> vector_dimension"
    by (simp add: vector_dimension_def)
  show ?thesis
    using len neq knn_search_dimension_mismatch [OF len neq, of example_env "[]" 5]
    by (simp add: str_nat_3)
qed


text \<open>What \<^verbatim>\<open>knn_search\<close> returns is a dict with a \<open>status\<close>.\<close>

lemma knn_process_status:
  "knn_process result = Inr r \<Longrightarrow> \<exists>d st. r = JDict d \<and> map_of d ''status'' = Some st"
  by (cases result) (auto simp: and_then_Inr lookup_Inr py_getitem_Inr split: if_splits)

lemma knn_search_status:
  "\<exists>d st. fst (knn_search env tr vector k) = JDict d \<and> map_of d ''status'' = Some st"
proof -
  obtain r tr' where run: "knn_search env tr vector k = (r, tr')"
    by (cases "knn_search env tr vector k")
  from knn_search_Inr [OF run] show ?thesis
  proof
    assume "\<exists>msg. r = error_result msg"
    with run show ?thesis by (auto simp: error_result_def)
  next
    assume "py_len vector = Inr vector_dimension \<and>
      tr' = tr @ [SearchDocuments (json_dumps env (knn_query vector k)) k] \<and>
      (\<exists>result. search_documents env tr (json_dumps env (knn_query vector k)) k = Inr result \<and>
                knn_process result = Inr r)"
    then obtain result where "knn_process result = Inr r" by blast
    from knn_process_status [OF this] run show ?thesis by simp
  qed
qed


lemma generate_embedding_example:
  "generate_embedding example_env tr (JStr ''hello'') None =
     (JDict [(''status'', JStr ''success''), (''embedding'', example_vector),
             (''model'', JStr ''Pro/BAAI/bge-m3'')],
      tr @ [HttpPost embedding_api_url
              (embedding_payload (JStr ''hello'') ''Pro/BAAI/bge-m3'')
              (embedding_headers ''secret'')])"
  by (simp add: generate_embedding_def example_env_def embedding_response_def
      first_embedding_def and_then_def default_model_def Let_def)

section \<open>Search by text\<close>

text \<open>
  The steps of \<^verbatim>\<open>text_similarity_search\<close>. It first embeds the text, which makes at
  most the one call to the embedding service. If the embedding result is not a success,
  it is returned as it is and the trace is the one of the embedding: the kNN search is
  not called. Otherwise \<^verbatim>\<open>knn_search\<close> runs on the embedding; if its result is not a
  success, that result is returned as it is; if it is a success with a \<open>results\<close> entry,
  the answer is exactly the status, the query text, these results and the \<open>total\<close> of
  the search result.
\<close>

lemma text_similarity_search_steps:
  assumes embed: "generate_embedding env tr (JStr text) None = (er, tr1)"
  shows "(tr1 = tr \<or> (\<exists>payload headers. tr1 = tr @ [HttpPost embedding_api_url payload headers])) \<and>
         (py_getitem er ''status'' \<noteq> Inr (JStr ''success'') \<longrightarrow>
            text_similarity_search env tr text k = (Inr er, tr1)) \<and>
         (\<forall>emb sr tr2.
            py_getitem er ''status'' = Inr (JStr ''success'') \<and>
            py_getitem er ''embedding'' = Inr emb \<and>
            knn_search env tr1 emb k = (sr, tr2) \<longrightarrow>
              (py_getitem sr ''status'' \<noteq> Inr (JStr ''success'') \<longrightarrow>
                 text_similarity_search env tr text k = (Inr sr, tr2)) \<and>
              (\<forall>results total.
                 py_getitem sr ''status'' = Inr (JStr ''success'') \<and>
                 py_getitem sr ''results'' = Inr results \<and>
                 py_get sr ''total'' (JInt 0) = Inr total \<longrightarrow>
                 text_similarity_search env tr text k =
                   (Inr (JDict [(''status'', JStr ''success''), (''query_text'', JStr text),
                                (''results'', results), (''total'', total)]), tr2)))"
proof (intro conjI allI impI)
  from generate_embedding_trace [of env tr "JStr text" None] embed
  show "tr1 = tr \<or> (\<exists>payload headers. tr1 = tr @ [HttpPost embedding_api_url payload headers])"
    by simp
next
  assume fail: "py_getitem er ''status'' \<noteq> Inr (JStr ''success'')"
  from generate_embedding_cases [of env tr "JStr text" None] embed fail
  have "\<exists>msg. er = error_result msg" by auto
  with embed show "text_similarity_search env tr text k = (Inr er, tr1)"
    by (auto simp: text_similarity_search_def error_result_def)
next
  fix emb sr tr2
  assume ok: "py_getitem er ''status'' = Inr (JStr ''success'') \<and>
            py_getitem er ''embedding'' = Inr emb \<and> knn_search env tr1 emb k = (sr, tr2)"
  assume fail: "py_getitem sr ''status'' \<noteq> Inr (JStr ''success'')"
  from knn_search_status [of env tr1 emb k] ok obtain d st where
    "sr = JDict d" "map_of d ''status'' = Some st" by auto
  with fail embed ok show "text_similarity_search env tr text k = (Inr sr, tr2)"
    by (auto simp: text_similarity_search_def)
next
  fix emb sr tr2 results total
  assume ok: "py_getitem er ''status'' = Inr (JStr ''success'') \<and>
            py_getitem er ''embedding'' = Inr emb \<and> knn_search env tr1 emb k = (sr, tr2)"
  assume "py_getitem sr ''status'' = Inr (JStr ''success'') \<and>
          py_getitem sr ''results'' = Inr results \<and> py_get sr ''total'' (JInt 0) = Inr total"
  with embed ok show "text_similarity_search env tr text k =
                   (Inr (JDict [(''status'', JStr ''success''), (''query_text'', JStr text),
                                (''results'', results), (''total'', total)]), tr2)"
    by (simp add: text_similarity_search_def and_then_def)
qed




section \<open>The items of a search result\<close>







section \<open>Lookup of a document\<close>

text \<open>
  Claim C8, as the code has it. \<^verbatim>\<open>get_document\<close> makes exactly one call: a search with
  the term query on \<open>_id\<close> for the given identifier and size 1. When that search answers
  with a success whose hit list is \<open>hits\<close>, the result is the not-found error exactly
  when \<open>hits\<close> is empty, and otherwise the success result that carries the first hit.
  When the search answers with a status other than success, that is when the search
  has failed, the result is the not-found error as well.
\<close>

theorem get_document_term_query:
  "snd (get_document env tr document_id) =
     tr @ [SearchDocuments
             (json_dumps env
                (JDict [(''query'', JDict [(''term'', JDict [(''_id'', JStr document_id)])])])) 1] \<and>
   (\<forall>d r1 r2 hits.
      search_documents env tr (json_dumps env (term_query document_id)) 1 = Inr (JDict d) \<and>
      map_of d ''status'' = Some (JStr ''success'') \<and>
      map_of d ''results'' = Some (JDict r1) \<and>
      map_of r1 ''hits'' = Some (JDict r2) \<and>
      map_of r2 ''hits'' = Some (JList hits) \<longrightarrow>
        ((fst (get_document env tr document_id) =
            Inr (JDict [(''status'', JStr ''error''),
                        (''message'', JStr (''Document with ID '' @ document_id @ '' not found''))]))
           = (hits = [])) \<and>
        (\<forall>hit rest. hits = hit # rest \<longrightarrow>
           fst (get_document env tr document_id) =
             Inr (JDict [(''status'', JStr ''success''), (''document'', hit)]))) \<and>
   (\<forall>d st.
      search_documents env tr (json_dumps env (term_query document_id)) 1 = Inr (JDict d) \<and>
      map_of d ''status'' = Some st \<and> st \<noteq> JStr ''success'' \<longrightarrow>
        fst (get_document env tr document_id) =
          Inr (JDict [(''status'', JStr ''error''),
                      (''message'', JStr (''Document with ID '' @ document_id @ '' not found''))]))"
proof (intro conjI allI impI)
  show "snd (get_document env tr document_id) =
     tr @ [SearchDocuments
             (json_dumps env
                (JDict [(''query'', JDict [(''term'', JDict [(''_id'', JStr document_id)])])])) 1]"
    by (simp add: get_document_def Let_def term_query_def)
next
  fix d r1 r2 hits
  assume a: "search_documents env tr (json_dumps env (term_query document_id)) 1 = Inr (JDict d) \<and>
      map_of d ''status'' = Some (JStr ''success'') \<and>
      map_of d ''results'' = Some (JDict r1) \<and>
      map_of r1 ''hits'' = Some (JDict r2) \<and>
      map_of r2 ''hits'' = Some (JList hits)"
  then have res: "fst (get_document env tr document_id) =
    (case hits of
       [] \<Rightarrow> Inr (not_found document_id)
     | hit # rest \<Rightarrow> Inr (JDict [(''status'', JStr ''success''), (''document'', hit)]))"
    by (cases hits)
      (simp_all add: get_document_def Let_def and_then_def get_document_result_def
        result_hits_def)
  show "(fst (get_document env tr document_id) =
            Inr (JDict [(''status'', JStr ''error''),
                        (''message'', JStr (''Document with ID '' @ document_id @ '' not found''))]))
           = (hits = [])"
    using res by (cases hits) (simp_all add: not_found_def error_result_def)
  fix hit rest
  assume "hits = hit # rest"
  with res show "fst (get_document env tr document_id) =
             Inr (JDict [(''status'', JStr ''success''), (''document'', hit)])"
    by simp
next
  fix d st
  assume "search_documents env tr (json_dumps env (term_query document_id)) 1 = Inr (JDict d) \<and>
      map_of d ''status'' = Some st \<and> st \<noteq> JStr ''success''"
  then show "fst (get_document env tr document_id) =
          Inr (JDict [(''status'', JStr ''error''),
                      (''message'', JStr (''Document with ID '' @ document_id @ '' not found''))])"
    by (simp add: get_document_def Let_def and_then_def get_document_result_def
        not_found_def error_result_def)
qed

theorem get_document_term_query_witness:
  "search_documents example_env [] (json_dumps example_env (term_query ''doc-1'')) 1 =
     Inr (JDict [(''status'', JStr ''success''),
                 (''results'', JDict [(''hits'', JDict [(''hits'', JList [example_hit])])])]) \<and>
   get_document example_env [] ''doc-1'' =
     (Inr (JDict [(''status'', JStr ''success''), (''document'', example_hit)]),
      [SearchDocuments ''query'' 1])"
proof -
  have search: "search_documents example_env [] (json_dumps example_env (term_query ''doc-1'')) 1 =
     Inr (JDict [(''status'', JStr ''success''),
                 (''results'', JDict [(''hits'', JDict [(''hits'', JList [example_hit])])])])"
    by (simp add: example_env_def search_response_def)
  note found = get_document_term_query [of example_env "[]" "''doc-1''"]
  from found have trace: "snd (get_document example_env [] ''doc-1'') = [SearchDocuments ''query'' 1]"
    by (simp add: example_env_def)
  from found search have "fst (get_document example_env [] ''doc-1'') =
     Inr (JDict [(''status'', JStr ''success''), (''document'', example_hit)])"
    by simp
  with trace search show ?thesis
    by (simp add: prod_eq_iff)
qed

text \<open>
  Claim C8 as it is written fails: the not-found error is returned also when the search
  has not yielded zero hits but has failed.
\<close>

theorem get_document_failed_search_counterexample:
  "search_documents failed_search_env [] (json_dumps failed_search_env (term_query ''doc-1'')) 1 =
     Inr (JDict [(''status'', JStr ''error''), (''message'', JStr ''connection refused'')]) \<and>
   get_document failed_search_env [] ''doc-1'' =
     (Inr (JDict [(''status'', JStr ''error''),
                  (''message'', JStr ''Document with ID doc-1 not found'')]),
      [SearchDocuments ''query'' 1])"
  by (simp add: get_document_def Let_def failed_search_env_def example_env_def and_then_def
      get_document_result_def not_found_def error_result_def)

section \<open>Indexing one text\<close>

text \<open>The store after \<^verbatim>\<open>d[k] = v\<close>.\<close>

lemma map_of_update: "map_of (AList.update k v d) k' = (if k' = k then Some v else map_of d k')"
  by (simp add: update_conv')

lemma cells_setitem:
  "cells (setitem a k v s) b = (if b = a then AList.update k v (cells s a) else cells s b)"
  by (simp add: setitem_def)

lemma next_free_setitem: "next_free (setitem a k v s) = next_free s"
  by (simp add: setitem_def)

text \<open>
  Claim C10, as the code has it. When \<^verbatim>\<open>index_text_with_embedding\<close> is called with a
  metadata dict that is not empty and the embedding of the text is generated, the
  document is the caller's dict itself: after the call that dict maps \<open>text\<close> to the text
  and the vector field to the embedding, every other key of it is as before, no other
  dict of the store has changed and no new dict has been made; what the index client is
  handed is this dict.
\<close>

theorem index_text_with_embedding_writes_metadata:
  assumes filled: "cells s a \<noteq> []"
    and embed: "generate_embedding env tr (JStr text) None =
                  (JDict [(''status'', JStr ''success''), (''embedding'', emb),
                          (''model'', JStr name)], tr1)"
    and run: "index_text_with_embedding env tr s text document_id (Some a) = (res, tr2, s')"
  shows "map_of (cells s' a) ''text'' = Some (JStr text) \<and>
         map_of (cells s' a) vector_field = Some emb \<and>
         (\<forall>key. key \<noteq> ''text'' \<and> key \<noteq> vector_field \<longrightarrow>
            map_of (cells s' a) key = map_of (cells s a) key) \<and>
         (\<forall>b. b \<noteq> a \<longrightarrow> cells s' b = cells s b) \<and>
         next_free s' = next_free s \<and>
         (tr2 = tr1 @ [WriteDocument (str_or document_id []) (JDict (cells s' a))] \<or>
          tr2 = tr1 @ [IndexDocument (JDict (cells s' a))])"
proof -
  let ?s' = "setitem a vector_field emb (setitem a ''text'' (JStr text) s)"
  from filled embed run have s': "s' = ?s'"
    by (auto simp: index_text_with_embedding_def Let_def split: if_splits)
  from filled embed run s' have trace:
    "tr2 = tr1 @ [WriteDocument (str_or document_id []) (JDict (cells s' a))] \<or>
     tr2 = tr1 @ [IndexDocument (JDict (cells s' a))]"
    by (auto simp: index_text_with_embedding_def Let_def split: if_splits)
  have "vector_field \<noteq> ''text''"
    by (simp add: vector_field_def)
  then show ?thesis
    using trace unfolding s'
    by (simp add: cells_setitem next_free_setitem map_of_update)
qed

theorem index_text_with_embedding_writes_metadata_witness:
  "cells example_store 0 \<noteq> [] \<and>
   generate_embedding example_env [] (JStr ''hello'') None =
     (JDict [(''status'', JStr ''success''), (''embedding'', example_vector),
             (''model'', JStr ''Pro/BAAI/bge-m3'')],
      [HttpPost embedding_api_url
         (embedding_payload (JStr ''hello'') ''Pro/BAAI/bge-m3'')
         (embedding_headers ''secret'')]) \<and>
   cells (snd (snd (index_text_with_embedding example_env [] example_store ''hello''
                      (Some ''doc-7'') (Some 0)))) 0 =
     [(''lang'', JStr ''en''), (''text'', JStr ''hello''), (''dense_vector'', example_vector)] \<and>
   map_of (cells (snd (snd (index_text_with_embedding example_env [] example_store ''hello''
                      (Some ''doc-7'') (Some 0)))) 0) ''text'' = Some (JStr ''hello'')"
proof -
  have filled: "cells example_store 0 \<noteq> []"
    by (simp add: example_store_def)
  have embed: "generate_embedding example_env [] (JStr ''hello'') None =
     (JDict [(''status'', JStr ''success''), (''embedding'', example_vector),
             (''model'', JStr ''Pro/BAAI/bge-m3'')],
      [HttpPost embedding_api_url
         (embedding_payload (JStr ''hello'') ''Pro/BAAI/bge-m3'')
         (embedding_headers ''secret'')])"
    using generate_embedding_example [of "[]"] by simp
  obtain res tr2 s' where run:
    "index_text_with_embedding example_env [] example_store ''hello'' (Some ''doc-7'') (Some 0)
       = (res, tr2, s')"
    by (cases "index_text_with_embedding example_env [] example_store ''hello''
                 (Some ''doc-7'') (Some 0)")
  have cells: "cells (snd (snd (index_text_with_embedding example_env [] example_store ''hello''
                      (Some ''doc-7'') (Some 0)))) 0 =
     [(''lang'', JStr ''en''), (''text'', JStr ''hello''), (''dense_vector'', example_vector)]"
    by (simp add: index_text_with_embedding_def embed Let_def example_store_def
        cells_setitem vector_field_def)
  from index_text_with_embedding_writes_metadata [OF filled embed run] run
  have "map_of (cells (snd (snd (index_text_with_embedding example_env [] example_store ''hello''
                      (Some ''doc-7'') (Some 0)))) 0) ''text'' = Some (JStr ''hello'')"
    by simp
  with filled embed cells show ?thesis
    by simp
qed

text \<open>
  Claim C10 as it is written fails: without an embedding the function returns before
  the document is prepared, and the caller's dict stays as it was.
\<close>

theorem index_text_with_embedding_untouched_counterexample:
  "cells example_store 0 = [(''lang'', JStr ''en'')] \<and>
   index_text_with_embedding no_token_env [] example_store ''hello'' None (Some 0) =
     (Inr (JDict [(''status'', JStr ''error''),
                  (''message'', JStr ''API token not configured for embedding service'')]),
      [], example_store)"
  by (simp add: index_text_with_embedding_def generate_embedding_def no_token_env_def
      example_env_def error_result_def example_store_def)

section \<open>Results and faults of the operations\<close>

lemma structured_error_result [simp]: "structured_result (error_result msg)"
  by (simp add: error_result_def has_key_def)

lemma generate_embedding_structured:
  "structured_result (fst (generate_embedding env tr text model))"
  using generate_embedding_cases [of env tr "text" model] by auto

lemma bulk_index_with_embeddings_structured:
  "structured_result (fst (bulk_index_with_embeddings env tr documents text_field))"
  by (auto simp: bulk_index_with_embeddings_def Let_def bulk_except_def has_key_def
      split: prod.splits sum.splits option.splits)

lemma knn_process_structured:
  assumes "search_result_ok result" and "knn_process result = Inr r"
  shows "structured_result r \<and>
         (py_getitem r ''status'' = Inr (JStr ''success'') \<longrightarrow>
            (\<exists>res. py_getitem r ''results'' = Inr res))"
proof (cases result)
  case (JDict d)
  show ?thesis
  proof (cases "map_of d ''status'' = Some (JStr ''success'')")
    case True
    with assms JDict show ?thesis
      by (auto simp: and_then_Inr lookup_Inr)
  next
    case False
    with assms JDict have "r = JDict d"
      by (auto simp: and_then_Inr lookup_Inr split: if_splits)
    with False assms(1) JDict show ?thesis
      by (auto split: option.splits)
  qed
qed (use assms in auto)

lemma knn_search_structured:
  assumes "client_contract env"
  shows "structured_result (fst (knn_search env tr vector k)) \<and>
         (py_getitem (fst (knn_search env tr vector k)) ''status'' = Inr (JStr ''success'') \<longrightarrow>
            (\<exists>res. py_getitem (fst (knn_search env tr vector k)) ''results'' = Inr res))"
proof -
  obtain r tr' where run: "knn_search env tr vector k = (r, tr')"
    by (cases "knn_search env tr vector k")
  from knn_search_Inr [OF run] show ?thesis
  proof
    assume "\<exists>msg. r = error_result msg"
    then obtain msg where "r = error_result msg" by blast
    with run show ?thesis by (simp add: error_result_def has_key_def)
  next
    assume "py_len vector = Inr vector_dimension \<and>
      tr' = tr @ [SearchDocuments (json_dumps env (knn_query vector k)) k] \<and>
      (\<exists>result. search_documents env tr (json_dumps env (knn_query vector k)) k = Inr result \<and>
                knn_process result = Inr r)"
    then obtain result where
      search: "search_documents env tr (json_dumps env (knn_query vector k)) k = Inr result"
      and proc: "knn_process result = Inr r"
      by blast
    from assms search have "search_result_ok result"
      unfolding client_contract_def by (metis sum.inject(2))
    from knn_process_structured [OF this proc] run show ?thesis by simp
  qed
qed

text \<open>
  With an index client that keeps the contract of section 4.2, each of the five
  operations returns a result, and the result is a dict whose status is \<open>success\<close>, or
  \<open>error\<close> together with a message.
\<close>

lemma structured_results_under_contract:
  assumes contract: "client_contract env"
  shows "structured_result (fst (generate_embedding env tr text model)) \<and>
         structured_result (fst (knn_search env tr vector k)) \<and>
         structured_result (fst (bulk_index_with_embeddings env tr documents text_field)) \<and>
         (\<exists>r. fst (index_text_with_embedding env tr s txt document_id metadata) = Inr r \<and>
              structured_result r) \<and>
         (\<exists>r. fst (text_similarity_search env tr txt k) = Inr r \<and> structured_result r)"
proof (intro conjI)
  show "structured_result (fst (generate_embedding env tr text model))"
    by (rule generate_embedding_structured)
  show "structured_result (fst (knn_search env tr vector k))"
    using knn_search_structured [OF contract] by blast
  show "structured_result (fst (bulk_index_with_embeddings env tr documents text_field))"
    by (rule bulk_index_with_embeddings_structured)
  show "\<exists>r. fst (index_text_with_embedding env tr s txt document_id metadata) = Inr r \<and>
            structured_result r"
  proof -
    obtain er tr1 where embed: "generate_embedding env tr (JStr txt) None = (er, tr1)"
      by (cases "generate_embedding env tr (JStr txt) None")
    from generate_embedding_cases [of env tr "JStr txt" None] embed
    consider msg where "er = error_result msg"
      | emb name where "er = JDict [(''status'', JStr ''success''), (''embedding'', emb),
                                   (''model'', JStr name)]"
      by auto
    then show ?thesis
    proof cases
      case 1
      with embed show ?thesis
        by (simp add: index_text_with_embedding_def error_result_def has_key_def)
    next
      case 2
      obtain document s1 where doc: "metadata_or_new metadata s = (document, s1)"
        by (cases "metadata_or_new metadata s")
      from contract have
        "\<And>tr i d. \<exists>r. write_document env tr i d = Inr r \<and> structured_result r"
        "\<And>tr d. \<exists>r. index_document env tr d = Inr r \<and> structured_result r"
        unfolding client_contract_def by blast+
      with 2 embed doc show ?thesis
        by (simp add: index_text_with_embedding_def Let_def)
    qed
  qed
  show "\<exists>r. fst (text_similarity_search env tr txt k) = Inr r \<and> structured_result r"
  proof -
    obtain er tr1 where embed: "generate_embedding env tr (JStr txt) None = (er, tr1)"
      by (cases "generate_embedding env tr (JStr txt) None")
    from generate_embedding_cases [of env tr "JStr txt" None] embed
    consider msg where "er = error_result msg"
      | emb name where "er = JDict [(''status'', JStr ''success''), (''embedding'', emb),
                                   (''model'', JStr name)]"
      by auto
    then show ?thesis
    proof cases
      case 1
      with embed show ?thesis
        by (simp add: text_similarity_search_def error_result_def has_key_def)
    next
      case 2
      obtain sr tr2 where search: "knn_search env tr1 emb k = (sr, tr2)"
        by (cases "knn_search env tr1 emb k")
      from knn_search_structured [OF contract, of tr1 emb k] search
      have sr: "structured_result sr"
        and res: "py_getitem sr ''status'' = Inr (JStr ''success'') \<Longrightarrow>
                    \<exists>res. py_getitem sr ''results'' = Inr res"
        by auto
      from sr obtain d where d: "sr = JDict d" by (cases sr) auto
      show ?thesis
      proof (cases "map_of d ''status'' = Some (JStr ''success'')")
        case True
        with res d obtain r where "map_of d ''results'' = Some r"
          by (auto simp: lookup_Inr)
        with True d 2 embed search show ?thesis
          by (simp add: text_similarity_search_def and_then_def)
      next
        case False
        with sr d have "map_of d ''status'' = Some (JStr ''error'')" by auto
        with d 2 embed search sr show ?thesis
          by (simp add: text_similarity_search_def)
      qed
    qed
  qed
qed

text \<open>
  Claim C9, as the code has it. \<^verbatim>\<open>generate_embedding\<close> and
  \<^verbatim>\<open>bulk_index_with_embeddings\<close> catch every exception of their bodies and always
  return a dict whose status is \<open>success\<close>, or \<open>error\<close> together with a message.
  \<^verbatim>\<open>knn_search\<close> catches every exception of its body and always returns a dict with a
  status. \<^verbatim>\<open>index_text_with_embedding\<close> has no handler: it returns the error of the
  embedding, or else exactly what the write of the index client returns or raises.
  With an index client that keeps the contract of section 4.2 (it answers every search
  and every write with a structured result and does not throw), \<^verbatim>\<open>knn_search\<close>,
  \<^verbatim>\<open>index_text_with_embedding\<close> and \<^verbatim>\<open>text_similarity_search\<close> return a structured
  result too, and no fault leaves them.
\<close>

theorem operations_results:
  "structured_result (fst (generate_embedding env tr content model)) \<and>
   structured_result (fst (bulk_index_with_embeddings env tr documents text_field)) \<and>
   (\<exists>d st. fst (knn_search env tr vector k) = JDict d \<and> map_of d ''status'' = Some st) \<and>
   (\<forall>er tr1.
      generate_embedding env tr (JStr words) None = (er, tr1) \<longrightarrow>
      (py_getitem er ''status'' \<noteq> Inr (JStr ''success'') \<longrightarrow>
         fst (index_text_with_embedding env tr s words document_id metadata) = Inr er \<and>
         structured_result er) \<and>
      (py_getitem er ''status'' = Inr (JStr ''success'') \<longrightarrow>
         (\<exists>doc. fst (index_text_with_embedding env tr s words document_id metadata) =
            (if truthy document_id
             then write_document env tr1 (str_or document_id []) (JDict doc)
             else index_document env tr1 (JDict doc))))) \<and>
   (client_contract env \<longrightarrow>
      structured_result (fst (knn_search env tr vector k)) \<and>
      (\<exists>r. fst (index_text_with_embedding env tr s words document_id metadata) = Inr r \<and>
           structured_result r) \<and>
      (\<exists>r. fst (text_similarity_search env tr words k) = Inr r \<and> structured_result r))"
proof (intro conjI allI impI)
  show "structured_result (fst (generate_embedding env tr content model))"
    by (rule generate_embedding_structured)
  show "structured_result (fst (bulk_index_with_embeddings env tr documents text_field))"
    by (rule bulk_index_with_embeddings_structured)
  show "\<exists>d st. fst (knn_search env tr vector k) = JDict d \<and> map_of d ''status'' = Some st"
    by (rule knn_search_status)
next
  fix er tr1
  assume embed: "generate_embedding env tr (JStr words) None = (er, tr1)"
    and fail: "py_getitem er ''status'' \<noteq> Inr (JStr ''success'')"
  from generate_embedding_cases [of env tr "JStr words" None] embed fail
  obtain msg where er: "er = error_result msg" by auto
  with embed show "fst (index_text_with_embedding env tr s words document_id metadata) = Inr er"
    by (simp add: index_text_with_embedding_def error_result_def)
  from er show "structured_result er" by simp
next
  fix er tr1
  assume embed: "generate_embedding env tr (JStr words) None = (er, tr1)"
    and ok: "py_getitem er ''status'' = Inr (JStr ''success'')"
  from generate_embedding_cases [of env tr "JStr words" None] embed ok
  obtain emb name where
    er: "er = JDict [(''status'', JStr ''success''), (''embedding'', emb), (''model'', JStr name)]"
    by (auto simp: error_result_def)
  obtain document s1 where doc: "metadata_or_new metadata s = (document, s1)"
    by (cases "metadata_or_new metadata s")
  let ?s3 = "setitem document vector_field emb (setitem document ''text'' (JStr words) s1)"
  have "fst (index_text_with_embedding env tr s words document_id metadata) =
            (if truthy document_id
             then write_document env tr1 (str_or document_id []) (JDict (cells ?s3 document))
             else index_document env tr1 (JDict (cells ?s3 document)))"
    using embed er doc by (simp add: index_text_with_embedding_def Let_def)
  then show "\<exists>doc. fst (index_text_with_embedding env tr s words document_id metadata) =
            (if truthy document_id
             then write_document env tr1 (str_or document_id []) (JDict doc)
             else index_document env tr1 (JDict doc))"
    by (rule exI)
next
  assume contract: "client_contract env"
  note all = structured_results_under_contract [OF contract]
  show "structured_result (fst (knn_search env tr vector k))"
    using all by blast
  show "\<exists>r. fst (index_text_with_embedding env tr s words document_id metadata) = Inr r \<and>
           structured_result r"
    using all by blast
  show "\<exists>r. fst (text_similarity_search env tr words k) = Inr r \<and> structured_result r"
    using all by blast
qed

theorem operations_results_witness:
  "client_contract example_env \<and>
   structured_result (fst (knn_search example_env [] example_vector 3)) \<and>
   (\<exists>r. fst (index_text_with_embedding example_env [] example_store ''hello'' None None) = Inr r \<and>
        structured_result r) \<and>
   (\<exists>r. fst (text_similarity_search example_env [] ''hello'' 3) = Inr r \<and> structured_result r)"
proof -
  have contract: "client_contract example_env"
    by (simp add: client_contract_def example_env_def search_response_def has_key_def)
  note under_contract = operations_results
    [where env = example_env and tr = "[]" and vector = example_vector and k = 3
       and s = example_store and words = "''hello''" and document_id = None
       and metadata = None,
      THEN conjunct2, THEN conjunct2, THEN conjunct2, THEN conjunct2, rule_format, OF contract]
  from contract under_contract show ?thesis
    by (rule conjI)
qed

text \<open>
  Claim C9 as it is written fails: when the write of the index client raises, the
  exception leaves \<^verbatim>\<open>index_text_with_embedding\<close>, which has no handler around lines 214
  to 217, after the embedding has been made and the write has been issued.
\<close>

theorem index_text_with_embedding_fault_counterexample:
  "fst (index_text_with_embedding write_raises_env [] example_store ''hello''
          (Some ''doc-7'') None) = Inl (Exn OtherException ''write failed'') \<and>
   fst (snd (index_text_with_embedding write_raises_env [] example_store ''hello''
               (Some ''doc-7'') None)) =
     [HttpPost embedding_api_url
        (embedding_payload (JStr ''hello'') ''Pro/BAAI/bge-m3'')
        (embedding_headers ''secret''),
      WriteDocument ''doc-7''
        (JDict [(''text'', JStr ''hello''), (''dense_vector'', example_vector)])]"
proof -
  have embed: "generate_embedding write_raises_env [] (JStr ''hello'') None =
     (JDict [(''status'', JStr ''success''), (''embedding'', example_vector),
             (''model'', JStr ''Pro/BAAI/bge-m3'')],
      [HttpPost embedding_api_url
         (embedding_payload (JStr ''hello'') ''Pro/BAAI/bge-m3'')
         (embedding_headers ''secret'')])"
    by (simp add: generate_embedding_def write_raises_env_def example_env_def
        embedding_response_def first_embedding_def and_then_def default_model_def Let_def)
  show ?thesis
    by (simp add: index_text_with_embedding_def embed Let_def new_dict_def setitem_def
        example_store_def vector_field_def)
      (simp add: write_raises_env_def example_env_def)
qed

section \<open>Indexing in bulk\<close>

lemma generate_embedding_posts:
  "\<exists>posts. snd (generate_embedding env tr content model) = tr @ posts \<and>
           (\<forall>e\<in>set posts. \<exists>payload headers. e = HttpPost embedding_api_url payload headers)"
proof -
  from generate_embedding_trace [of env tr content model] show ?thesis
  proof
    assume "snd (generate_embedding env tr content model) = tr"
    then have "snd (generate_embedding env tr content model) = tr @ [] \<and>
           (\<forall>e\<in>set []. \<exists>payload headers. e = HttpPost embedding_api_url payload headers)"
      by simp
    then show ?thesis by blast
  next
    assume "\<exists>payload headers.
      snd (generate_embedding env tr content model) = tr @ [HttpPost embedding_api_url payload headers]"
    then obtain payload headers where
      "snd (generate_embedding env tr content model) = tr @ [HttpPost embedding_api_url payload headers]"
      by blast
    then have "snd (generate_embedding env tr content model) =
                 tr @ [HttpPost embedding_api_url payload headers] \<and>
           (\<forall>e\<in>set [HttpPost embedding_api_url payload headers].
              \<exists>payload headers. e = HttpPost embedding_api_url payload headers)"
      by simp
    then show ?thesis by blast
  qed
qed

text \<open>
  The first loop of \<^verbatim>\<open>bulk_index_with_embeddings\<close> does not raise; it puts every
  document on exactly one of its two lists, calls nothing but the embedding service,
  and a processed document is the input document with the embedding under the vector
  field.
\<close>

lemma embed_documents_result:
  "\<exists>P' F' posts.
     embed_documents env tf docs P F tr = (Inr (P @ P', F @ F'), tr @ posts) \<and>
     length P' + length F' = length docs \<and>
     (\<forall>e\<in>set posts. \<exists>payload headers. e = HttpPost embedding_api_url payload headers) \<and>
     (P' = [] \<longrightarrow> (\<exists>reasons. length reasons = length docs \<and> F' = map2 failure docs reasons)) \<and>
     (\<forall>p\<in>set P'. \<exists>doc\<in>set docs. \<exists>content emb name tr'.
        map_of doc tf = Some content \<and>
        fst (generate_embedding env tr' content None) =
          JDict [(''status'', JStr ''success''), (''embedding'', emb), (''model'', JStr name)] \<and>
        p = AList.update vector_field emb doc)"
proof (induction docs arbitrary: P F tr)
  case Nil
  show ?case
    apply (rule exI [where x = "[]"])
    apply (rule exI [where x = "[]"])
    apply (rule exI [where x = "[]"])
    apply simp
    done
next
  case (Cons doc docs)
  show ?case
  proof (cases "map_of doc tf")
    case None
    let ?f = "failure doc (JStr (''Missing text field '' @ quoted tf))"
    from Cons.IH [of P "F @ [?f]" tr] obtain P' F' posts where
      run: "embed_documents env tf docs P (F @ [?f]) tr = (Inr (P @ P', (F @ [?f]) @ F'), tr @ posts)"
      and len: "length P' + length F' = length docs"
      and posts: "\<forall>e\<in>set posts. \<exists>payload headers. e = HttpPost embedding_api_url payload headers"
      and all_failed: "P' = [] \<longrightarrow>
             (\<exists>reasons. length reasons = length docs \<and> F' = map2 failure docs reasons)"
      and processed: "\<forall>p\<in>set P'. \<exists>doc\<in>set docs. \<exists>content emb name tr'.
        map_of doc tf = Some content \<and>
        fst (generate_embedding env tr' content None) =
          JDict [(''status'', JStr ''success''), (''embedding'', emb), (''model'', JStr name)] \<and>
        p = AList.update vector_field emb doc"
      by blast
    have 1: "embed_documents env tf (doc # docs) P F tr = (Inr (P @ P', F @ (?f # F')), tr @ posts)"
      using None run by simp
    have 2: "length P' + length (?f # F') = length (doc # docs)"
      using len by simp
    have 3: "P' = [] \<longrightarrow>
               (\<exists>reasons. length reasons = length (doc # docs) \<and>
                          ?f # F' = map2 failure (doc # docs) reasons)"
    proof
      assume "P' = []"
      with all_failed obtain reasons where
        "length reasons = length docs" "F' = map2 failure docs reasons" by blast
      then have "length (JStr (''Missing text field '' @ quoted tf) # reasons) = length (doc # docs) \<and>
                 ?f # F' = map2 failure (doc # docs) (JStr (''Missing text field '' @ quoted tf) # reasons)"
        by simp
      then show "\<exists>reasons. length reasons = length (doc # docs) \<and>
                          ?f # F' = map2 failure (doc # docs) reasons"
        by (rule exI)
    qed
    have 4: "\<forall>p\<in>set P'. \<exists>doc'\<in>set (doc # docs). \<exists>content emb name tr'.
        map_of doc' tf = Some content \<and>
        fst (generate_embedding env tr' content None) =
          JDict [(''status'', JStr ''success''), (''embedding'', emb), (''model'', JStr name)] \<and>
        p = AList.update vector_field emb doc'"
      using processed by auto
    show ?thesis
      apply (rule exI [where x = "P'"])
      apply (rule exI [where x = "?f # F'"])
      apply (rule exI [where x = posts])
      apply (intro conjI)
          apply (rule 1)
         apply (rule 2)
        apply (rule posts)
       apply (rule 3)
      apply (rule 4)
      done
  next
    case (Some content)
    obtain er tr1 where embed: "generate_embedding env tr content None = (er, tr1)"
      by (cases "generate_embedding env tr content None")
    from generate_embedding_posts [of env tr content None] embed obtain ps where
      tr1: "tr1 = tr @ ps"
      and ps: "\<forall>e\<in>set ps. \<exists>payload headers. e = HttpPost embedding_api_url payload headers"
      by auto
    from generate_embedding_cases [of env tr content None] embed
    consider msg where "er = error_result msg"
      | emb name where "er = JDict [(''status'', JStr ''success''), (''embedding'', emb),
                                   (''model'', JStr name)]"
      by auto
    then show ?thesis
    proof cases
      case 1
      let ?f = "failure doc (JStr msg)"
      from Cons.IH [of P "F @ [?f]" tr1] obtain P' F' posts where
        run: "embed_documents env tf docs P (F @ [?f]) tr1 =
                (Inr (P @ P', (F @ [?f]) @ F'), tr1 @ posts)"
        and len: "length P' + length F' = length docs"
        and posts: "\<forall>e\<in>set posts. \<exists>payload headers. e = HttpPost embedding_api_url payload headers"
        and all_failed: "P' = [] \<longrightarrow>
               (\<exists>reasons. length reasons = length docs \<and> F' = map2 failure docs reasons)"
        and processed: "\<forall>p\<in>set P'. \<exists>doc\<in>set docs. \<exists>content emb name tr'.
          map_of doc tf = Some content \<and>
          fst (generate_embedding env tr' content None) =
            JDict [(''status'', JStr ''success''), (''embedding'', emb), (''model'', JStr name)] \<and>
          p = AList.update vector_field emb doc"
        by blast
      have a: "embed_documents env tf (doc # docs) P F tr =
                 (Inr (P @ P', F @ (?f # F')), tr @ (ps @ posts))"
        using Some embed 1 run tr1 by (simp add: error_result_def)
      have b: "length P' + length (?f # F') = length (doc # docs)"
        using len by simp
      have c: "P' = [] \<longrightarrow>
                 (\<exists>reasons. length reasons = length (doc # docs) \<and>
                            ?f # F' = map2 failure (doc # docs) reasons)"
      proof
        assume "P' = []"
        with all_failed obtain reasons where
          "length reasons = length docs" "F' = map2 failure docs reasons" by blast
        then have "length (JStr msg # reasons) = length (doc # docs) \<and>
                   ?f # F' = map2 failure (doc # docs) (JStr msg # reasons)"
          by simp
        then show "\<exists>reasons. length reasons = length (doc # docs) \<and>
                            ?f # F' = map2 failure (doc # docs) reasons"
          by (rule exI)
      qed
      have d: "\<forall>p\<in>set P'. \<exists>doc'\<in>set (doc # docs). \<exists>content emb name tr'.
          map_of doc' tf = Some content \<and>
          fst (generate_embedding env tr' content None) =
            JDict [(''status'', JStr ''success''), (''embedding'', emb), (''model'', JStr name)] \<and>
          p = AList.update vector_field emb doc'"
        using processed by auto
      have e: "\<forall>e\<in>set (ps @ posts). \<exists>payload headers. e = HttpPost embedding_api_url payload headers"
        using ps posts by auto
      show ?thesis
        apply (rule exI [where x = "P'"])
        apply (rule exI [where x = "?f # F'"])
        apply (rule exI [where x = "ps @ posts"])
        apply (intro conjI)
            apply (rule a)
           apply (rule b)
          apply (rule e)
         apply (rule c)
        apply (rule d)
        done
    next
      case 2
      let ?p = "AList.update vector_field emb doc"
      from Cons.IH [of "P @ [?p]" F tr1] obtain P' F' posts where
        run: "embed_documents env tf docs (P @ [?p]) F tr1 =
                (Inr ((P @ [?p]) @ P', F @ F'), tr1 @ posts)"
        and len: "length P' + length F' = length docs"
        and posts: "\<forall>e\<in>set posts. \<exists>payload headers. e = HttpPost embedding_api_url payload headers"
        and processed: "\<forall>p\<in>set P'. \<exists>doc\<in>set docs. \<exists>content emb name tr'.
          map_of doc tf = Some content \<and>
          fst (generate_embedding env tr' content None) =
            JDict [(''status'', JStr ''success''), (''embedding'', emb), (''model'', JStr name)] \<and>
          p = AList.update vector_field emb doc"
        by blast
      have a: "embed_documents env tf (doc # docs) P F tr =
                 (Inr (P @ (?p # P'), F @ F'), tr @ (ps @ posts))"
        using Some embed 2 run tr1 by simp
      have b: "length (?p # P') + length F' = length (doc # docs)"
        using len by simp
      have c: "?p # P' = [] \<longrightarrow>
                 (\<exists>reasons. length reasons = length (doc # docs) \<and>
                            F' = map2 failure (doc # docs) reasons)"
        by simp
      have "\<exists>doc'\<in>set (doc # docs). \<exists>content emb' name tr'.
          map_of doc' tf = Some content \<and>
          fst (generate_embedding env tr' content None) =
            JDict [(''status'', JStr ''success''), (''embedding'', emb'), (''model'', JStr name)] \<and>
          ?p = AList.update vector_field emb' doc'"
        using Some embed 2 by (intro bexI [of _ doc] exI [of _ content] exI [of _ emb]
            exI [of _ name] exI [of _ tr]) simp_all
      then have d: "\<forall>p\<in>set (?p # P'). \<exists>doc'\<in>set (doc # docs). \<exists>content emb name tr'.
          map_of doc' tf = Some content \<and>
          fst (generate_embedding env tr' content None) =
            JDict [(''status'', JStr ''success''), (''embedding'', emb), (''model'', JStr name)] \<and>
          p = AList.update vector_field emb doc'"
        using processed by auto
      have e: "\<forall>e\<in>set (ps @ posts). \<exists>payload headers. e = HttpPost embedding_api_url payload headers"
        using ps posts by auto
      show ?thesis
        apply (rule exI [where x = "?p # P'"])
        apply (rule exI [where x = "F'"])
        apply (rule exI [where x = "ps @ posts"])
        apply (intro conjI)
            apply (rule a)
           apply (rule b)
          apply (rule e)
         apply (rule c)
        apply (rule d)
        done
    qed
  qed
qed


text \<open>
  The first loop, document by document. It makes one outcome of each document, in
  order: a failure with the document and the reason (the text field is missing, or the
  embedding failed with that message), or the document with its embedding under the
  vector field. The failed list is the failures and the processed list is the others.
\<close>

lemma embed_documents_outcomes:
  "\<exists>outs posts.
     embed_documents env tf docs P F tr =
       (Inr (P @ map projr (filter (\<lambda>out. \<not> isl out) outs),
             F @ map projl (filter isl outs)), tr @ posts) \<and>
     (\<forall>e\<in>set posts. \<exists>payload headers. e = HttpPost embedding_api_url payload headers) \<and>
     list_all2 (\<lambda>doc out.
        (map_of doc tf = None \<and>
           out = Inl (failure doc (JStr (''Missing text field '' @ quoted tf)))) \<or>
        (\<exists>content tr' msg.
           map_of doc tf = Some content \<and>
           fst (generate_embedding env tr' content None) = error_result msg \<and>
           out = Inl (failure doc (JStr msg))) \<or>
        (\<exists>content tr' emb name.
           map_of doc tf = Some content \<and>
           fst (generate_embedding env tr' content None) =
             JDict [(''status'', JStr ''success''), (''embedding'', emb), (''model'', JStr name)] \<and>
           out = Inr (AList.update vector_field emb doc))) docs outs"
proof (induction docs arbitrary: P F tr)
  case Nil
  show ?case
    apply (rule exI [where x = "[]"])
    apply (rule exI [where x = "[]"])
    apply simp
    done
next
  case (Cons doc docs)
  let ?R = "\<lambda>doc out.
        (map_of doc tf = None \<and>
           out = Inl (failure doc (JStr (''Missing text field '' @ quoted tf)))) \<or>
        (\<exists>content tr' msg.
           map_of doc tf = Some content \<and>
           fst (generate_embedding env tr' content None) = error_result msg \<and>
           out = Inl (failure doc (JStr msg))) \<or>
        (\<exists>content tr' emb name.
           map_of doc tf = Some content \<and>
           fst (generate_embedding env tr' content None) =
             JDict [(''status'', JStr ''success''), (''embedding'', emb), (''model'', JStr name)] \<and>
           out = Inr (AList.update vector_field emb doc))"
  show ?case
  proof (cases "map_of doc tf")
    case None
    let ?f = "failure doc (JStr (''Missing text field '' @ quoted tf))"
    from Cons.IH [of P "F @ [?f]" tr] obtain outs posts where
      run: "embed_documents env tf docs P (F @ [?f]) tr =
              (Inr (P @ map projr (filter (\<lambda>out. \<not> isl out) outs),
                    (F @ [?f]) @ map projl (filter isl outs)), tr @ posts)"
      and posts: "\<forall>e\<in>set posts. \<exists>payload headers. e = HttpPost embedding_api_url payload headers"
      and rel: "list_all2 ?R docs outs"
      by blast
    have a: "embed_documents env tf (doc # docs) P F tr =
               (Inr (P @ map projr (filter (\<lambda>out. \<not> isl out) (Inl ?f # outs)),
                     F @ map projl (filter isl (Inl ?f # outs))), tr @ posts)"
      using None run by simp
    have "?R doc (Inl ?f)"
      using None by simp
    with rel have c: "list_all2 ?R (doc # docs) (Inl ?f # outs)"
      by simp
    show ?thesis
      apply (rule exI [where x = "Inl ?f # outs"])
      apply (rule exI [where x = posts])
      apply (intro conjI)
        apply (rule a)
       apply (rule posts)
      apply (rule c)
      done
  next
    case (Some content)
    obtain er tr1 where embed: "generate_embedding env tr content None = (er, tr1)"
      by (cases "generate_embedding env tr content None")
    from generate_embedding_posts [of env tr content None] embed obtain ps where
      tr1: "tr1 = tr @ ps"
      and ps: "\<forall>e\<in>set ps. \<exists>payload headers. e = HttpPost embedding_api_url payload headers"
      by auto
    from generate_embedding_cases [of env tr content None] embed
    consider msg where "er = error_result msg"
      | emb name where "er = JDict [(''status'', JStr ''success''), (''embedding'', emb),
                                   (''model'', JStr name)]"
      by auto
    then show ?thesis
    proof cases
      case 1
      let ?f = "failure doc (JStr msg)"
      from Cons.IH [of P "F @ [?f]" tr1] obtain outs posts where
        run: "embed_documents env tf docs P (F @ [?f]) tr1 =
                (Inr (P @ map projr (filter (\<lambda>out. \<not> isl out) outs),
                      (F @ [?f]) @ map projl (filter isl outs)), tr1 @ posts)"
        and posts: "\<forall>e\<in>set posts. \<exists>payload headers. e = HttpPost embedding_api_url payload headers"
        and rel: "list_all2 ?R docs outs"
        by blast
      have a: "embed_documents env tf (doc # docs) P F tr =
                 (Inr (P @ map projr (filter (\<lambda>out. \<not> isl out) (Inl ?f # outs)),
                       F @ map projl (filter isl (Inl ?f # outs))), tr @ (ps @ posts))"
        using Some embed 1 run tr1 by (simp add: error_result_def)
      have e: "\<forall>e\<in>set (ps @ posts). \<exists>payload headers. e = HttpPost embedding_api_url payload headers"
        using ps posts by auto
      have "fst (generate_embedding env tr content None) = error_result msg"
        using embed 1 by simp
      with Some have "?R doc (Inl ?f)"
        by blast
      with rel have c: "list_all2 ?R (doc # docs) (Inl ?f # outs)"
        by simp
      show ?thesis
        apply (rule exI [where x = "Inl ?f # outs"])
        apply (rule exI [where x = "ps @ posts"])
        apply (intro conjI)
          apply (rule a)
         apply (rule e)
        apply (rule c)
        done
    next
      case 2
      let ?p = "AList.update vector_field emb doc"
      from Cons.IH [of "P @ [?p]" F tr1] obtain outs posts where
        run: "embed_documents env tf docs (P @ [?p]) F tr1 =
                (Inr ((P @ [?p]) @ map projr (filter (\<lambda>out. \<not> isl out) outs),
                      F @ map projl (filter isl outs)), tr1 @ posts)"
        and posts: "\<forall>e\<in>set posts. \<exists>payload headers. e = HttpPost embedding_api_url payload headers"
        and rel: "list_all2 ?R docs outs"
        by blast
      have a: "embed_documents env tf (doc # docs) P F tr =
                 (Inr (P @ map projr (filter (\<lambda>out. \<not> isl out) (Inr ?p # outs)),
                       F @ map projl (filter isl (Inr ?p # outs))), tr @ (ps @ posts))"
        using Some embed 2 run tr1 by simp
      have e: "\<forall>e\<in>set (ps @ posts). \<exists>payload headers. e = HttpPost embedding_api_url payload headers"
        using ps posts by auto
      have "fst (generate_embedding env tr content None) =
              JDict [(''status'', JStr ''success''), (''embedding'', emb), (''model'', JStr name)]"
        using embed 2 by simp
      with Some have "?R doc (Inr ?p)"
        by blast
      with rel have c: "list_all2 ?R (doc # docs) (Inr ?p # outs)"
        by simp
      show ?thesis
        apply (rule exI [where x = "Inr ?p # outs"])
        apply (rule exI [where x = "ps @ posts"])
        apply (intro conjI)
          apply (rule a)
         apply (rule e)
        apply (rule c)
        done
    qed
  qed
qed

lemma bulk_index_with_embeddings_example:
  "bulk_index_with_embeddings example_env []
     [[(''text'', JStr ''hello'')], [(''foo'', JStr ''b'')]] ''text'' =
     (JDict [(''status'', JStr ''success''),
             (''response'', JDict [(''errors'', JBool False)]),
             (''processed_count'', JInt 1),
             (''failed_count'', JInt 1),
             (''failed_docs'',
              JList [JDict [(''doc'', JDict [(''foo'', JStr ''b'')]),
                            (''reason'', JStr (''Missing text field '' @ quoted ''text''))]])],
      [HttpPost embedding_api_url
         (embedding_payload (JStr ''hello'') ''Pro/BAAI/bge-m3'')
         (embedding_headers ''secret''),
       Bulk (JList [JDict [(''index'', JDict [(''_index'', JStr ''docs'')])],
                    JDict [(''text'', JStr ''hello''), (''dense_vector'', example_vector)]])
            True])"
  by (simp add: bulk_index_with_embeddings_def generate_embedding_example failure_def
      vector_field_def) (simp add: example_env_def)

text \<open>
  Claim C1, as the code has it. For every list of documents and every text field name,
  the first loop makes one outcome of each document, in order: a failure, when the text
  field is missing or the embedding of the text fails, that holds the document and the
  reason, or else the document with its embedding under the vector field. The failed
  list is the failures and the processed list is the other outcomes, so every document
  is on exactly one of the two lists, and the two lists together are as long as the
  input. The loop calls the embedding service only. A result with status \<open>success\<close>
  carries the lengths of the two lists as \<open>processed_count\<close> and \<open>failed_count\<close>. When
  no document was processed, the result is the error with the message and the full
  list of failures, one (document, reason) pair for each input document in order, and
  the trace holds no call but those to the embedding service: no bulk write is issued.
\<close>

theorem bulk_index_with_embeddings_counts:
  "\<exists>outs processed failed posts.
     list_all2 (\<lambda>doc out.
        (map_of doc text_field = None \<and>
           out = Inl (JDict [(''doc'', JDict doc),
                             (''reason'', JStr (''Missing text field '' @ quoted text_field))])) \<or>
        (\<exists>content tr' msg.
           map_of doc text_field = Some content \<and>
           fst (generate_embedding env tr' content None) =
             JDict [(''status'', JStr ''error''), (''message'', JStr msg)] \<and>
           out = Inl (JDict [(''doc'', JDict doc), (''reason'', JStr msg)])) \<or>
        (\<exists>content tr' emb name.
           map_of doc text_field = Some content \<and>
           fst (generate_embedding env tr' content None) =
             JDict [(''status'', JStr ''success''), (''embedding'', emb), (''model'', JStr name)] \<and>
           out = Inr (AList.update vector_field emb doc))) documents outs \<and>
     processed = map projr (filter (\<lambda>out. \<not> isl out) outs) \<and>
     failed = map projl (filter isl outs) \<and>
     embed_documents env text_field documents [] [] tr = (Inr (processed, failed), tr @ posts) \<and>
     (\<forall>e\<in>set posts. \<exists>payload headers. e = HttpPost embedding_api_url payload headers) \<and>
     length processed + length failed = length documents \<and>
     (\<forall>d. fst (bulk_index_with_embeddings env tr documents text_field) = JDict d \<and>
          map_of d ''status'' = Some (JStr ''success'') \<longrightarrow>
          map_of d ''processed_count'' = Some (JInt (int (length processed))) \<and>
          map_of d ''failed_count'' = Some (JInt (int (length failed)))) \<and>
     (processed = [] \<longrightarrow>
        bulk_index_with_embeddings env tr documents text_field =
          (JDict [(''status'', JStr ''error''),
                  (''message'', JStr ''No documents were processed successfully''),
                  (''failed_docs'', JList failed)], tr @ posts) \<and>
        (\<exists>reasons. length reasons = length documents \<and>
           failed = map2 (\<lambda>doc reason. JDict [(''doc'', JDict doc), (''reason'', reason)])
                      documents reasons))"
proof -
  from embed_documents_outcomes [of env text_field documents "[]" "[]" tr]
  obtain outs posts where
    run0: "embed_documents env text_field documents [] [] tr =
            (Inr ([] @ map projr (filter (\<lambda>out. \<not> isl out) outs),
                  [] @ map projl (filter isl outs)), tr @ posts)"
    and posts: "\<forall>e\<in>set posts. \<exists>payload headers. e = HttpPost embedding_api_url payload headers"
    and rel0: "list_all2 (\<lambda>doc out.
        (map_of doc text_field = None \<and>
           out = Inl (failure doc (JStr (''Missing text field '' @ quoted text_field)))) \<or>
        (\<exists>content tr' msg.
           map_of doc text_field = Some content \<and>
           fst (generate_embedding env tr' content None) = error_result msg \<and>
           out = Inl (failure doc (JStr msg))) \<or>
        (\<exists>content tr' emb name.
           map_of doc text_field = Some content \<and>
           fst (generate_embedding env tr' content None) =
             JDict [(''status'', JStr ''success''), (''embedding'', emb), (''model'', JStr name)] \<and>
           out = Inr (AList.update vector_field emb doc))) documents outs"
    by blast
  let ?processed = "map projr (filter (\<lambda>out. \<not> isl out) outs)"
  let ?failed = "map projl (filter isl outs)"
  from run0 have run: "embed_documents env text_field documents [] [] tr =
                         (Inr (?processed, ?failed), tr @ posts)"
    by simp
  note rel = rel0 [unfolded failure_def error_result_def]
  from embed_documents_result [of env text_field documents "[]" "[]" tr] run
  have all_failed: "?processed = [] \<longrightarrow>
       (\<exists>reasons. length reasons = length documents \<and> ?failed = map2 failure documents reasons)"
    by auto
  have failure: "failure = (\<lambda>doc reason. JDict [(''doc'', JDict doc), (''reason'', reason)])"
    by (simp add: fun_eq_iff failure_def)
  from rel0 have "length outs = length documents"
    by (simp add: list_all2_lengthD)
  then have len: "length ?processed + length ?failed = length documents"
    using sum_length_filter_compl [of isl outs] by simp
  have counts: "\<forall>d. fst (bulk_index_with_embeddings env tr documents text_field) = JDict d \<and>
          map_of d ''status'' = Some (JStr ''success'') \<longrightarrow>
          map_of d ''processed_count'' = Some (JInt (int (length ?processed))) \<and>
          map_of d ''failed_count'' = Some (JInt (int (length ?failed)))"
    using run
    by (auto simp: bulk_index_with_embeddings_def Let_def bulk_except_def error_result_def
        split: option.splits sum.splits)
  have none: "?processed = [] \<longrightarrow>
        bulk_index_with_embeddings env tr documents text_field =
          (JDict [(''status'', JStr ''error''),
                  (''message'', JStr ''No documents were processed successfully''),
                  (''failed_docs'', JList ?failed)], tr @ posts) \<and>
        (\<exists>reasons. length reasons = length documents \<and>
           ?failed = map2 (\<lambda>doc reason. JDict [(''doc'', JDict doc), (''reason'', reason)])
                      documents reasons)"
    using run all_failed unfolding failure
    by (simp add: bulk_index_with_embeddings_def)
  show ?thesis
    apply (rule exI [where x = outs])
    apply (rule exI [where x = ?processed])
    apply (rule exI [where x = ?failed])
    apply (rule exI [where x = posts])
    apply (intro conjI)
           apply (rule rel)
          apply (rule refl)
         apply (rule refl)
        apply (rule run)
       apply (rule posts)
      apply (rule len)
     apply (rule counts)
    apply (rule none)
    done
qed

theorem bulk_index_with_embeddings_counts_witness:
  "fst (bulk_index_with_embeddings example_env []
          [[(''text'', JStr ''hello'')], [(''foo'', JStr ''b'')]] ''text'') =
     JDict [(''status'', JStr ''success''),
            (''response'', JDict [(''errors'', JBool False)]),
            (''processed_count'', JInt 1),
            (''failed_count'', JInt 1),
            (''failed_docs'',
             JList [JDict [(''doc'', JDict [(''foo'', JStr ''b'')]),
                           (''reason'', JStr (''Missing text field '' @ quoted ''text''))]])] \<and>
   (\<exists>outs processed failed posts.
      processed = map projr (filter (\<lambda>out. \<not> isl out) outs) \<and>
      failed = map projl (filter isl outs) \<and>
      embed_documents example_env ''text''
        [[(''text'', JStr ''hello'')], [(''foo'', JStr ''b'')]] [] [] [] =
          (Inr (processed, failed), [] @ posts) \<and>
      length processed + length failed =
        length [[(''text'', JStr ''hello'')], [(''foo'', JStr ''b'')]])"
proof (rule conjI)
  show "fst (bulk_index_with_embeddings example_env []
          [[(''text'', JStr ''hello'')], [(''foo'', JStr ''b'')]] ''text'') =
     JDict [(''status'', JStr ''success''),
            (''response'', JDict [(''errors'', JBool False)]),
            (''processed_count'', JInt 1),
            (''failed_count'', JInt 1),
            (''failed_docs'',
             JList [JDict [(''doc'', JDict [(''foo'', JStr ''b'')]),
                           (''reason'', JStr (''Missing text field '' @ quoted ''text''))]])]"
    by (simp add: bulk_index_with_embeddings_example)
  show "\<exists>outs processed failed posts.
      processed = map projr (filter (\<lambda>out. \<not> isl out) outs) \<and>
      failed = map projl (filter isl outs) \<and>
      embed_documents example_env ''text''
        [[(''text'', JStr ''hello'')], [(''foo'', JStr ''b'')]] [] [] [] =
          (Inr (processed, failed), [] @ posts) \<and>
      length processed + length failed =
        length [[(''text'', JStr ''hello'')], [(''foo'', JStr ''b'')]]"
    using bulk_index_with_embeddings_counts
         [where text_field = "''text''" and env = example_env and tr = "[]"
            and documents = "[[(''text'', JStr ''hello'')], [(''foo'', JStr ''b'')]]"]
    by (elim exE conjE, intro exI conjI)
qed

text \<open>
  Claim C1 as it is written fails: a result of \<^verbatim>\<open>bulk_index_with_embeddings\<close> need not
  hold the two counts. When every document fails, the result is the error with the
  failures and no counts; when the bulk call raises, the result is an error with a
  message only, although a document had been processed.
\<close>

theorem bulk_index_with_embeddings_no_counts_counterexample:
  "bulk_index_with_embeddings example_env [] [[(''foo'', JStr ''b'')]] ''text'' =
     (JDict [(''status'', JStr ''error''),
             (''message'', JStr ''No documents were processed successfully''),
             (''failed_docs'',
              JList [JDict [(''doc'', JDict [(''foo'', JStr ''b'')]),
                            (''reason'', JStr (''Missing text field '' @ quoted ''text''))]])],
      []) \<and>
   fst (bulk_index_with_embeddings bulk_raises_env [] [[(''text'', JStr ''hello'')]] ''text'') =
     JDict [(''status'', JStr ''error''),
            (''message'', JStr ''Bulk indexing error: ConnectionError'')]"
proof -
  have embed: "generate_embedding bulk_raises_env [] (JStr ''hello'') None =
     (JDict [(''status'', JStr ''success''), (''embedding'', example_vector),
             (''model'', JStr ''Pro/BAAI/bge-m3'')],
      [HttpPost embedding_api_url
         (embedding_payload (JStr ''hello'') ''Pro/BAAI/bge-m3'')
         (embedding_headers ''secret'')])"
    by (simp add: generate_embedding_def bulk_raises_env_def example_env_def
        embedding_response_def first_embedding_def and_then_def default_model_def Let_def)
  have all_failed:
    "bulk_index_with_embeddings example_env [] [[(''foo'', JStr ''b'')]] ''text'' =
     (JDict [(''status'', JStr ''error''),
             (''message'', JStr ''No documents were processed successfully''),
             (''failed_docs'',
              JList [JDict [(''doc'', JDict [(''foo'', JStr ''b'')]),
                            (''reason'', JStr (''Missing text field '' @ quoted ''text''))]])],
      [])"
    by (simp add: bulk_index_with_embeddings_def failure_def)
  have raised:
    "fst (bulk_index_with_embeddings bulk_raises_env [] [[(''text'', JStr ''hello'')]] ''text'') =
     JDict [(''status'', JStr ''error''),
            (''message'', JStr ''Bulk indexing error: ConnectionError'')]"
    by (simp add: bulk_index_with_embeddings_def embed)
      (simp add: bulk_raises_env_def example_env_def bulk_except_def error_result_def)
  from all_failed raised show ?thesis
    by simp
qed

section \<open>The dimension of the vectors\<close>







end
